theory Spec2Isabelle
  imports Main
begin

section \<open>JavaScript values\<close>

text \<open>
  Payloads, parsed messages and statistics are plain JavaScript values. Numbers that
  occur in this program are small integers (retry counts, delays, positions), so
  \<open>JNum\<close> carries an \<open>int\<close>. An object is the list of its own properties. A
  \<open>BigInt\<close> is the one kind of value here that \<open>JSON.stringify\<close> refuses.
\<close>

datatype jsval =
    JUndefined
  | JNull
  | JBool bool
  | JNum int
  | JBigInt int
  | JStr string
  | JArr "jsval list"
  | JObj "(string \<times> jsval) list"

text \<open>
  What can be thrown: a TypeError of the language, and the error the \<open>ws\<close> package
  throws from \<open>send\<close> on a socket that is not open.
\<close>

datatype error = TypeError | NotOpened

text \<open>JavaScript truthiness, as used by \<open>&&\<close> and \<open>if\<close>.\<close>

fun truthy :: "jsval \<Rightarrow> bool" where
  "truthy JUndefined = False"
| "truthy JNull = False"
| "truthy (JBool b) = b"
| "truthy (JNum k) = (k \<noteq> 0)"
| "truthy (JBigInt k) = (k \<noteq> 0)"
| "truthy (JStr s) = (s \<noteq> [])"
| "truthy (JArr xs) = True"
| "truthy (JObj kvs) = True"

text \<open>
  Reading a property \<open>v.k\<close>. On \<open>null\<close> and \<open>undefined\<close> the read throws a TypeError;
  on an object it yields the property or \<open>undefined\<close>; the keys this program reads
  (\<open>op\<close>, \<open>reason\<close>) exist on no primitive and on no array, so there the read yields
  \<open>undefined\<close>.
\<close>

fun get_prop :: "jsval \<Rightarrow> string \<Rightarrow> error + jsval" where
  "get_prop JUndefined k = Inl TypeError"
| "get_prop JNull k = Inl TypeError"
| "get_prop (JObj kvs) k = Inr (case map_of kvs k of None \<Rightarrow> JUndefined | Some v \<Rightarrow> v)"
| "get_prop (JBool b) k = Inr JUndefined"
| "get_prop (JNum i) k = Inr JUndefined"
| "get_prop (JBigInt i) k = Inr JUndefined"
| "get_prop (JStr s) k = Inr JUndefined"
| "get_prop (JArr xs) k = Inr JUndefined"

section \<open>Lavalink: one node connection\<close>

text \<open>
  A socket created by \<open>new WebSocket(address, {headers})\<close>. The address template
  \<open>ws://host:port\<close> is kept as its two components. The listeners for \<open>open\<close>,
  \<open>message\<close> and \<open>error\<close> are attached in \<open>connect\<close> and never removed; only the
  \<open>close\<close> listener can be removed (by \<open>destroy\<close>), hence the flag. \<open>readyState\<close> is
  the socket's own state as the \<open>ws\<close> package keeps it, \<open>outbox\<close> records the values
  an open socket was handed through its \<open>send\<close>, \<open>close_called\<close> a call of its
  \<open>close\<close>.
\<close>

datatype ready_state = Connecting | Open | Closing | Closed

record socket =
  sock_host :: string
  sock_port :: int
  sock_headers :: "(string \<times> jsval) list"
  close_listener :: bool
  close_called :: bool
  readyState :: ready_state
  outbox :: "jsval list"

datatype node_signal =
    NReady
  | NDisconnect
  | NError string
  | NMessage jsval

record node_options =
  opt_host :: string
  opt_port :: "int option"
  opt_region :: "string option"
  opt_numShards :: int
  opt_userId :: string
  opt_password :: "string option"
  opt_timeout :: "int option"

text \<open>
  The fields of the class, followed by the part of the runtime the class acts on:
  the sockets it has created (a socket's handle is its index in \<open>sockets\<close>), the
  timers that are pending (handle and delay; every timer this class registers has
  \<open>reconnect\<close> as its callback), the counter that names the next timer, the log of
  every delay passed to \<open>setTimeout\<close>, and the log of emitted signals. The listeners
  of a signal belong to the users of the class: emitting is recorded, not followed.
\<close>

record lavalink =
  host :: string
  port :: int
  region :: "string option"
  userId :: string
  numShards :: int
  password :: string
  connected :: bool
  draining :: bool
  retries :: int
  reconnectTimeout :: int
  reconnectInterval :: "nat option"
  stats :: jsval
  ws :: "nat option"
  sockets :: "socket list"
  timers :: "(nat \<times> int) list"
  next_timer :: nat
  scheduled :: "int list"
  emitted :: "node_signal list"

definition emit :: "node_signal \<Rightarrow> lavalink \<Rightarrow> lavalink" where
  "emit sig n = n\<lparr>emitted := emitted n @ [sig]\<rparr>"

text \<open>\<open>setTimeout(this.reconnect.bind(this), delay)\<close>: returns the new handle.\<close>

definition setTimeout :: "int \<Rightarrow> lavalink \<Rightarrow> nat \<times> lavalink" where
  "setTimeout delay n =
     (next_timer n,
      n\<lparr>timers := timers n @ [(next_timer n, delay)],
        next_timer := Suc (next_timer n),
        scheduled := scheduled n @ [delay]\<rparr>)"

definition clearTimeout :: "nat \<Rightarrow> lavalink \<Rightarrow> lavalink" where
  "clearTimeout t n = n\<lparr>timers := filter (\<lambda>e. fst e \<noteq> t) (timers n)\<rparr>"

definition connect :: "lavalink \<Rightarrow> lavalink" where
  "connect n =
     (let s = \<lparr>sock_host = host n, sock_port = port n,
               sock_headers = [(''Authorization'', JStr (password n)),
                               (''Num-Shards'', JNum (numShards n)),
                               (''User-Id'', JStr (userId n))],
               close_listener = True, close_called = False, readyState = Connecting,
               outbox = []\<rparr>
      in n\<lparr>ws := Some (length (sockets n)), sockets := sockets n @ [s]\<rparr>)"

text \<open>The constructor; \<open>a || b\<close> takes \<open>b\<close> when \<open>a\<close> is absent, \<open>0\<close> or the empty string.\<close>

definition new_lavalink :: "node_options \<Rightarrow> lavalink" where
  "new_lavalink options =
     connect
       \<lparr>host = opt_host options,
        port = (case opt_port options of None \<Rightarrow> 80 | Some p \<Rightarrow> if p = 0 then 80 else p),
        region = (case opt_region options of None \<Rightarrow> None
                  | Some r \<Rightarrow> if r = [] then None else Some r),
        userId = opt_userId options,
        numShards = opt_numShards options,
        password = (case opt_password options of None \<Rightarrow> ''youshallnotpass''
                    | Some w \<Rightarrow> if w = [] then ''youshallnotpass'' else w),
        connected = False,
        draining = False,
        retries = 0,
        reconnectTimeout = (case opt_timeout options of None \<Rightarrow> 5000
                            | Some t \<Rightarrow> if t = 0 then 5000 else t),
        reconnectInterval = None,
        stats = JObj [(''players'', JNum 0), (''playingPlayers'', JNum 0)],
        ws = None,
        sockets = [],
        timers = [],
        next_timer = 0,
        scheduled = [],
        emitted = []\<rparr>"

definition retryInterval :: "lavalink \<Rightarrow> int" where
  "retryInterval n = (let retries = min (retries n - 1) 5 in (retries + 5) ^ 2 * 1000)"

definition reconnect :: "lavalink \<Rightarrow> lavalink" where
  "reconnect n =
     (let interval = retryInterval n;
          (t, n1) = setTimeout interval n;
          n2 = n1\<lparr>reconnectInterval := Some t\<rparr>;
          n3 = n2\<lparr>retries := retries n2 + 1\<rparr>
      in connect n3)"

text \<open>
  The socket's own \<open>close\<close>: a socket that is connecting or open starts closing; the
  \<open>close\<close> event follows later, from the runtime.
\<close>

definition ws_close :: "socket \<Rightarrow> socket" where
  "ws_close s =
     s\<lparr>close_called := True,
       readyState := (if readyState s = Connecting \<or> readyState s = Open then Closing
                      else readyState s)\<rparr>"

definition destroy :: "lavalink \<Rightarrow> lavalink" where
  "destroy n =
     (case ws n of
        None \<Rightarrow> n
      | Some sid \<Rightarrow>
          n\<lparr>sockets := (sockets n)[sid := ws_close ((sockets n ! sid)\<lparr>close_listener := False\<rparr>)]\<rparr>)"

definition ready :: "lavalink \<Rightarrow> lavalink" where
  "ready n =
     (let n1 = (case reconnectInterval n of
                  None \<Rightarrow> n
                | Some t \<Rightarrow> (clearTimeout t n)\<lparr>reconnectInterval := None\<rparr>);
          n2 = n1\<lparr>connected := True\<rparr>;
          n3 = n2\<lparr>retries := 0\<rparr>
      in emit NReady n3)"

definition disconnected :: "lavalink \<Rightarrow> lavalink" where
  "disconnected n =
     (let n1 = n\<lparr>connected := False\<rparr>;
          n2 = (if reconnectInterval n1 = None then emit NDisconnect n1 else n1);
          n3 = n2\<lparr>ws := None\<rparr>
      in if reconnectInterval n3 = None
         then (let (t, n4) = setTimeout (reconnectTimeout n3) n3
               in n4\<lparr>reconnectInterval := Some t\<rparr>)
         else n3)"

text \<open>
  \<open>JSON.stringify\<close> and \<open>JSON.parse\<close> belong to the runtime; they are parameters,
  \<open>None\<close> standing for a thrown exception. \<open>JSON.stringify\<close> returns the text
  (\<open>JStr\<close>), or \<open>undefined\<close> for a value that has no JSON form. The socket's own
  \<open>send\<close> belongs to the \<open>ws\<close> package: an open socket takes the value it is handed,
  and on a socket that is not open the call throws (the package does so without a
  callback argument; its later versions throw only while the socket is connecting).
  In \<open>send\<close> the call stands outside the \<open>try\<close>, so the throw is the result of \<open>send\<close>;
  nothing has been written by then.
\<close>

definition ws_send :: "nat \<Rightarrow> jsval \<Rightarrow> lavalink \<Rightarrow> error + lavalink" where
  "ws_send sid payload n =
     (if readyState (sockets n ! sid) = Open
      then Inr (n\<lparr>sockets := (sockets n)[sid := (sockets n ! sid)
                         \<lparr>outbox := outbox (sockets n ! sid) @ [payload]\<rparr>]\<rparr>)
      else Inl NotOpened)"

definition send :: "(jsval \<Rightarrow> jsval option) \<Rightarrow> jsval \<Rightarrow> lavalink \<Rightarrow> error + lavalink" where
  "send stringify data n =
     (case ws n of
        None \<Rightarrow> Inr n
      | Some sid \<Rightarrow>
          (case stringify data of
             None \<Rightarrow> Inr (emit (NError ''Unable to stringify payload.'') n)
           | Some payload \<Rightarrow> ws_send sid payload n))"

definition onMessage :: "(string \<Rightarrow> jsval option) \<Rightarrow> string \<Rightarrow> lavalink \<Rightarrow> error + lavalink" where
  "onMessage parse message n =
     (case parse message of
        None \<Rightarrow> Inr (emit (NError ''Unable to parse ws message.'') n)
      | Some data \<Rightarrow>
          (case get_prop data ''op'' of
             Inl e \<Rightarrow> Inl e
           | Inr opv \<Rightarrow>
               (let n1 = (if truthy opv \<and> opv = JStr ''stats'' then n\<lparr>stats := data\<rparr> else n)
                in Inr (emit (NMessage data) n1))))"

text \<open>
  What the runtime can do to a node between two turns: a socket the node has created
  fires \<open>open\<close>, \<open>close\<close>, \<open>message\<close> or \<open>error\<close>, a pending timer expires, or the
  owner calls the public \<open>send\<close> or \<open>destroy\<close>. A handler runs only where the source
  attached it; an expired timer is no longer pending when its callback runs. The
  \<open>open\<close> event takes a connecting socket to open, the \<open>close\<close> event takes a socket
  to closed. An error thrown inside the \<open>message\<close> listener or by \<open>send\<close> leaves the
  node as it was.
\<close>

definition set_readyState :: "nat \<Rightarrow> ready_state \<Rightarrow> lavalink \<Rightarrow> lavalink" where
  "set_readyState sid st n = n\<lparr>sockets := (sockets n)[sid := (sockets n ! sid)\<lparr>readyState := st\<rparr>]\<rparr>"

definition socket_open :: "nat \<Rightarrow> lavalink \<Rightarrow> lavalink" where
  "socket_open sid n =
     (if sid < length (sockets n)
      then ready (if readyState (sockets n ! sid) = Connecting
                  then set_readyState sid Open n else n)
      else n)"

definition socket_close :: "nat \<Rightarrow> lavalink \<Rightarrow> lavalink" where
  "socket_close sid n =
     (if sid < length (sockets n)
      then (if close_listener (sockets n ! sid)
            then disconnected (set_readyState sid Closed n)
            else set_readyState sid Closed n)
      else n)"

definition timer_fired :: "nat \<Rightarrow> lavalink \<Rightarrow> lavalink" where
  "timer_fired t n =
     (if t \<in> set (map fst (timers n))
      then reconnect (n\<lparr>timers := filter (\<lambda>e. fst e \<noteq> t) (timers n)\<rparr>)
      else n)"

datatype node_event =
    SocketOpen nat
  | SocketClose nat
  | SocketMessage nat string
  | SocketError nat string
  | TimerFired nat
  | CallSend jsval
  | CallDestroy

definition node_step ::
  "(jsval \<Rightarrow> jsval option) \<Rightarrow> (string \<Rightarrow> jsval option) \<Rightarrow> node_event \<Rightarrow> lavalink \<Rightarrow> lavalink" where
  "node_step stringify parse ev n =
     (case ev of
        SocketOpen sid \<Rightarrow> socket_open sid n
      | SocketClose sid \<Rightarrow> socket_close sid n
      | SocketMessage sid m \<Rightarrow>
          if sid < length (sockets n)
          then (case onMessage parse m n of Inl e \<Rightarrow> n | Inr n' \<Rightarrow> n')
          else n
      | SocketError sid err \<Rightarrow> if sid < length (sockets n) then emit (NError err) n else n
      | TimerFired t \<Rightarrow> timer_fired t n
      | CallSend d \<Rightarrow> (case send stringify d n of Inl e \<Rightarrow> n | Inr n' \<Rightarrow> n')
      | CallDestroy \<Rightarrow> destroy n)"

primrec node_run ::
  "(jsval \<Rightarrow> jsval option) \<Rightarrow> (string \<Rightarrow> jsval option) \<Rightarrow> node_event list \<Rightarrow> lavalink \<Rightarrow> lavalink" where
  "node_run stringify parse [] n = n"
| "node_run stringify parse (ev # evs) n =
     node_run stringify parse evs (node_step stringify parse ev n)"

text \<open>
  One failed attempt to open, as the node lives it: the socket it holds closes, then
  the pending reconnect timer expires and \<open>reconnect\<close> runs.
\<close>

definition failed_attempt :: "lavalink \<Rightarrow> lavalink" where
  "failed_attempt n =
     (let n1 = (case ws n of None \<Rightarrow> n | Some sid \<Rightarrow> socket_close sid n)
      in case reconnectInterval n1 of
           None \<Rightarrow> n1
         | Some t \<Rightarrow> timer_fired t n1)"

section \<open>Player: one session\<close>

datatype player_signal =
    PConnect
  | PReady
  | PDisconnect jsval
  | PEnd jsval
  | PError jsval

text \<open>
  What a session does to the outside, in the order it does it: a call of
  \<open>this.node.send(data)\<close>, an emitted signal, a call of \<open>this.manager.switchNode(this)\<close>,
  a \<open>VOICE_STATE_UPDATE\<close> handed to \<open>shard.sendWS\<close>.
\<close>

datatype effect =
    NodeSend jsval
  | Emit player_signal
  | ShardSendWS_VoiceStateUpdate jsval

text \<open>The callbacks this class passes to \<open>process.nextTick\<close>.\<close>

datatype callback =
    CheckEventQueue
  | EmitReady
  | EmitEnd jsval

datatype manager_ref = PlayerManagerRef

record connect_data =
  data_guildId :: jsval
  data_sessionId :: jsval
  data_event :: jsval

text \<open>
  The fields of the class (\<open>lastTrack\<close> and \<open>playOptions\<close> are undefined until first
  written; \<open>shard_sendWS\<close> says whether \<open>this.shard.sendWS\<close> exists), then the queue of
  \<open>process.nextTick\<close> callbacks not yet run and the log of effects. The node is held
  by value: a session acts on it through \<open>send\<close> and reads \<open>draining\<close>.
\<close>

record player =
  id_player :: jsval
  node :: lavalink
  hostname :: string
  guildId :: jsval
  channelId :: jsval
  manager :: "manager_ref option"
  options :: jsval
  ready_player :: bool
  playing :: bool
  paused :: bool
  shard_sendWS :: bool
  state :: "(string \<times> jsval) list"
  track :: jsval
  sendQueue :: "jsval list"
  timestamp :: int
  lastTrack :: jsval
  playOptions :: "(string \<times> jsval) list option"
  ticks :: "callback list"
  effects :: "effect list"

record player_data =
  d_hostname :: string
  d_guildId :: jsval
  d_channelId :: jsval
  d_shard_sendWS :: bool
  d_node :: lavalink
  d_manager :: "manager_ref option"
  d_options :: jsval

definition new_player :: "jsval \<Rightarrow> player_data \<Rightarrow> int \<Rightarrow> player" where
  "new_player ident d now =
     \<lparr>id_player = ident,
      node = d_node d,
      hostname = d_hostname d,
      guildId = d_guildId d,
      channelId = d_channelId d,
      manager = d_manager d,
      options = d_options d,
      ready_player = False,
      playing = False,
      paused = False,
      shard_sendWS = d_shard_sendWS d,
      state = [],
      track = JNull,
      sendQueue = [],
      timestamp = now,
      lastTrack = JUndefined,
      playOptions = None,
      ticks = [],
      effects = []\<rparr>"

text \<open>Writing a property of an object, and \<open>Object.assign(target, source)\<close>.\<close>

fun obj_set :: "string \<Rightarrow> jsval \<Rightarrow> (string \<times> jsval) list \<Rightarrow> (string \<times> jsval) list" where
  "obj_set k v [] = [(k, v)]"
| "obj_set k v (e # kvs) = (if fst e = k then (k, v) # kvs else e # obj_set k v kvs)"

definition obj_assign ::
  "(string \<times> jsval) list \<Rightarrow> (string \<times> jsval) list option \<Rightarrow> (string \<times> jsval) list" where
  "obj_assign target source =
     (case source of
        None \<Rightarrow> target
      | Some kvs \<Rightarrow> foldl (\<lambda>t e. obj_set (fst e) (snd e) t) target kvs)"

text \<open>
  \<open>this.node.send(data)\<close>: the call is recorded; where \<open>send\<close> throws, the node is
  as it was and the error goes to the caller, with the session as it is by then.
\<close>

definition node_send ::
  "(jsval \<Rightarrow> jsval option) \<Rightarrow> jsval \<Rightarrow> player \<Rightarrow> (error \<times> player) + player" where
  "node_send stringify data p =
     (case send stringify data (node p) of
        Inl e \<Rightarrow> Inl (e, p\<lparr>effects := effects p @ [NodeSend data]\<rparr>)
      | Inr n \<Rightarrow> Inr (p\<lparr>node := n, effects := effects p @ [NodeSend data]\<rparr>))"

definition nextTick :: "callback \<Rightarrow> player \<Rightarrow> player" where
  "nextTick cb p = p\<lparr>ticks := ticks p @ [cb]\<rparr>"

definition emit_player :: "player_signal \<Rightarrow> player \<Rightarrow> player" where
  "emit_player sig p = p\<lparr>effects := effects p @ [Emit sig]\<rparr>"

text \<open>
  \<open>sendEvent\<close> is an \<open>async\<close> function: a throw of \<open>node.send\<close> ends its body and
  rejects the promise it returns, which no caller looks at. The exception goes no
  further, and \<open>process.nextTick\<close> has not been reached.
\<close>

definition sendEvent :: "(jsval \<Rightarrow> jsval option) \<Rightarrow> jsval \<Rightarrow> player \<Rightarrow> player" where
  "sendEvent stringify data p =
     (case node_send stringify data p of
        Inl ep \<Rightarrow> snd ep
      | Inr p1 \<Rightarrow> nextTick CheckEventQueue p1)"

definition checkEventQueue :: "(jsval \<Rightarrow> jsval option) \<Rightarrow> player \<Rightarrow> player" where
  "checkEventQueue stringify p =
     (if length (sendQueue p) > 0
      then (case sendQueue p of
              [] \<Rightarrow> p
            | event # rest \<Rightarrow> sendEvent stringify event (p\<lparr>sendQueue := rest\<rparr>))
      else p)"

definition queueEvent :: "(jsval \<Rightarrow> jsval option) \<Rightarrow> jsval \<Rightarrow> player \<Rightarrow> player" where
  "queueEvent stringify data p =
     (if length (sendQueue p) > 0
      then p\<lparr>sendQueue := sendQueue p @ [data]\<rparr>
      else sendEvent stringify data p)"

definition voiceUpdate_payload :: "connect_data \<Rightarrow> jsval" where
  "voiceUpdate_payload data =
     JObj [(''op'', JStr ''voiceUpdate''),
           (''guildId'', data_guildId data),
           (''sessionId'', data_sessionId data),
           (''event'', data_event data)]"

definition connect_player :: "(jsval \<Rightarrow> jsval option) \<Rightarrow> connect_data \<Rightarrow> player \<Rightarrow> player" where
  "connect_player stringify data p =
     (let p1 = emit_player PConnect p;
          p2 = queueEvent stringify (voiceUpdate_payload data) p1
      in nextTick EmitReady p2)"

definition stop_payload :: "player \<Rightarrow> jsval" where
  "stop_payload p = JObj [(''op'', JStr ''stop''), (''guildId'', guildId p)]"

definition stop :: "(jsval \<Rightarrow> jsval option) \<Rightarrow> player \<Rightarrow> player" where
  "stop stringify p =
     (let payload = stop_payload p;
          p1 = queueEvent stringify payload p;
          p2 = p1\<lparr>playing := False\<rparr>;
          p3 = p2\<lparr>lastTrack := track p2\<rparr>
      in p3\<lparr>track := JNull\<rparr>)"

definition stateUpdate :: "(string \<times> jsval) list \<Rightarrow> player \<Rightarrow> player" where
  "stateUpdate st p = p\<lparr>state := st\<rparr>"

text \<open>
  The methods that call \<open>node.send\<close> themselves pass its throw on to their caller,
  with the fields written so far.
\<close>

definition setPause ::
  "(jsval \<Rightarrow> jsval option) \<Rightarrow> bool \<Rightarrow> player \<Rightarrow> (error \<times> player) + player" where
  "setPause stringify pause p =
     (case node_send stringify
             (JObj [(''op'', JStr ''pause''), (''guildId'', guildId p), (''pause'', JBool pause)]) p of
        Inl ep \<Rightarrow> Inl ep
      | Inr p1 \<Rightarrow>
          (let p2 = p1\<lparr>paused := pause\<rparr>
           in Inr (p2\<lparr>playing := \<not> pause\<rparr>)))"

definition setEqualizer ::
  "(jsval \<Rightarrow> jsval option) \<Rightarrow> jsval \<Rightarrow> player \<Rightarrow> (error \<times> player) + player" where
  "setEqualizer stringify bands p =
     node_send stringify
       (JObj [(''op'', JStr ''equalizer''), (''guildId'', guildId p), (''bands'', bands)]) p"

definition destroy_player ::
  "(jsval \<Rightarrow> jsval option) \<Rightarrow> player \<Rightarrow> (error \<times> player) + player" where
  "destroy_player stringify p =
     node_send stringify (JObj [(''op'', JStr ''destroy''), (''guildId'', guildId p)]) p"

definition pause ::
  "(jsval \<Rightarrow> jsval option) \<Rightarrow> player \<Rightarrow> (error \<times> player) + player" where
  "pause stringify p = (if playing p then setPause stringify True p else Inr p)"

definition resume ::
  "(jsval \<Rightarrow> jsval option) \<Rightarrow> player \<Rightarrow> (error \<times> player) + player" where
  "resume stringify p =
     (if \<not> playing p \<and> paused p then setPause stringify False p else Inr p)"

definition seek ::
  "(jsval \<Rightarrow> jsval option) \<Rightarrow> jsval \<Rightarrow> player \<Rightarrow> (error \<times> player) + player" where
  "seek stringify position p =
     node_send stringify
       (JObj [(''op'', JStr ''seek''), (''guildId'', guildId p), (''position'', position)]) p"

definition setVolume ::
  "(jsval \<Rightarrow> jsval option) \<Rightarrow> jsval \<Rightarrow> player \<Rightarrow> (error \<times> player) + player" where
  "setVolume stringify volume p =
     node_send stringify
       (JObj [(''op'', JStr ''volume''), (''guildId'', guildId p), (''volume'', volume)]) p"

text \<open>\<open>_disconnect\<close> in the source.\<close>

definition disconnect_inner ::
  "(jsval \<Rightarrow> jsval option) \<Rightarrow> player \<Rightarrow> (error \<times> player) + player" where
  "disconnect_inner stringify p =
     (let p1 = p\<lparr>playing := False\<rparr>
      in case (if paused p1 then resume stringify p1 else Inr p1) of
           Inl ep \<Rightarrow> Inl ep
         | Inr p2 \<Rightarrow>
             (let p3 = queueEvent stringify
                         (JObj [(''op'', JStr ''destroy''), (''guildId'', guildId p2)]) p2
              in Inr (stop stringify p3)))"

definition disconnect ::
  "(jsval \<Rightarrow> jsval option) \<Rightarrow> jsval \<Rightarrow> player \<Rightarrow> (error \<times> player) + player" where
  "disconnect stringify msg p =
     (case disconnect_inner stringify p of
        Inl ep \<Rightarrow> Inl ep
      | Inr p1 \<Rightarrow> Inr (emit_player (PDisconnect msg) p1))"

text \<open>
  \<open>play\<close>. \<open>switchNode\<close> belongs to the PlayerManager, whose code is not part of the
  sources at hand: it is the parameter \<open>switchNode\<close>, a function of the session it is
  handed. Where the manager is \<open>null\<close>, \<open>this.manager.switchNode\<close> throws a TypeError;
  the fields written before the throw stay written, so the error carries the session.
\<close>

definition play_payload :: "player \<Rightarrow> jsval \<Rightarrow> (string \<times> jsval) list option \<Rightarrow> jsval" where
  "play_payload p trk opts =
     JObj (obj_assign [(''op'', JStr ''play''), (''guildId'', guildId p), (''track'', trk)] opts)"

definition play ::
  "(jsval \<Rightarrow> jsval option) \<Rightarrow> (player \<Rightarrow> player) \<Rightarrow> int \<Rightarrow> jsval \<Rightarrow>
   (string \<times> jsval) list option \<Rightarrow> player \<Rightarrow> (error \<times> player) + player" where
  "play stringify switchNode now trk opts p =
     (let p1 = p\<lparr>lastTrack := track p\<rparr>;
          p2 = p1\<lparr>track := trk\<rparr>;
          p3 = p2\<lparr>playOptions := opts\<rparr>
      in if draining (node p3)
         then (let p4 = p3\<lparr>state := obj_set ''position'' (JNum 0) (state p3)\<rparr>
               in case manager p4 of
                    None \<Rightarrow> Inl (TypeError, p4)
                  | Some m \<Rightarrow> Inr (switchNode p4))
         else (let payload = play_payload p3 trk opts;
                   p4 = queueEvent stringify payload p3;
                   p5 = p4\<lparr>playing := \<not> paused p4\<rparr>
               in Inr (p5\<lparr>timestamp := now\<rparr>)))"

definition onTrackEnd :: "jsval \<Rightarrow> player \<Rightarrow> (error \<times> player) + player" where
  "onTrackEnd message p =
     (case get_prop message ''reason'' of
        Inl e \<Rightarrow> Inl (e, p)
      | Inr reason \<Rightarrow>
          (let p1 = (if reason \<noteq> JStr ''REPLACED''
                     then (let q1 = p\<lparr>playing := False\<rparr>;
                               q2 = q1\<lparr>lastTrack := track q1\<rparr>
                           in q2\<lparr>track := JNull\<rparr>)
                     else p)
           in Inr (emit_player (PEnd message) p1)))"

definition onTrackException :: "jsval \<Rightarrow> player \<Rightarrow> player" where
  "onTrackException message p = emit_player (PError message) p"

definition onTrackStuck :: "(jsval \<Rightarrow> jsval option) \<Rightarrow> jsval \<Rightarrow> player \<Rightarrow> player" where
  "onTrackStuck stringify message p = nextTick (EmitEnd message) (stop stringify p)"

definition updateVoiceState :: "jsval \<Rightarrow> jsval \<Rightarrow> jsval \<Rightarrow> player \<Rightarrow> player" where
  "updateVoiceState chan selfMute selfDeaf p =
     (if shard_sendWS p
      then p\<lparr>effects := effects p @
             [ShardSendWS_VoiceStateUpdate
                (JObj [(''guild_id'', if id_player p = JStr ''call'' then JNull else id_player p),
                       (''channel_id'', if truthy chan then chan else JNull),
                       (''self_mute'', JBool (truthy selfMute)),
                       (''self_deaf'', JBool (truthy selfDeaf))])]\<rparr>
      else p)"

definition switchChannel :: "jsval \<Rightarrow> jsval \<Rightarrow> player \<Rightarrow> player" where
  "switchChannel chan reactive p =
     (if channelId p = chan then p
      else (let p1 = p\<lparr>channelId := chan\<rparr>
            in if reactive = JBool True
               then updateVoiceState chan JUndefined JUndefined p1
               else p1))"

definition getTimestamp :: "int \<Rightarrow> player \<Rightarrow> int" where
  "getTimestamp now p = now - timestamp p"

section \<open>Turns of the scheduler\<close>

text \<open>
  A thrown error leaves the fields written before it; \<open>state_of\<close> is the session
  after the call, thrown or not.
\<close>

definition state_of :: "(error \<times> 'a) + 'a \<Rightarrow> 'a" where
  "state_of r = (case r of Inl es \<Rightarrow> snd es | Inr s \<Rightarrow> s)"

definition run_callback :: "(jsval \<Rightarrow> jsval option) \<Rightarrow> callback \<Rightarrow> player \<Rightarrow> player" where
  "run_callback stringify cb p =
     (case cb of
        CheckEventQueue \<Rightarrow> checkEventQueue stringify p
      | EmitReady \<Rightarrow> emit_player PReady p
      | EmitEnd message \<Rightarrow> emit_player (PEnd message) p)"

text \<open>One scheduling turn: the oldest \<open>process.nextTick\<close> callback runs, if there is one.\<close>

definition tick :: "(jsval \<Rightarrow> jsval option) \<Rightarrow> player \<Rightarrow> player" where
  "tick stringify p =
     (case ticks p of
        [] \<Rightarrow> p
      | cb # rest \<Rightarrow> run_callback stringify cb (p\<lparr>ticks := rest\<rparr>))"

text \<open>
  Everything that can happen to a session: a call of one of its methods (the private
  ones included), a scheduling turn, an event of its node, and a write of the node's
  \<open>draining\<close> flag by the owner of the node.
\<close>

datatype player_op =
    Connect connect_data
  | Disconnect jsval
  | Play jsval "(string \<times> jsval) list option" int
  | Stop
  | StateUpdate "(string \<times> jsval) list"
  | SetPause bool
  | SetEqualizer jsval
  | Destroy
  | Pause
  | Resume
  | Seek jsval
  | SetVolume jsval
  | OnTrackEnd jsval
  | OnTrackException jsval
  | OnTrackStuck jsval
  | SwitchChannel jsval jsval
  | UpdateVoiceState jsval jsval jsval
  | QueueEvent jsval
  | SendEvent jsval
  | CheckQueue
  | Tick
  | NodeEvent node_event
  | SetDraining bool

definition player_step ::
  "(jsval \<Rightarrow> jsval option) \<Rightarrow> (string \<Rightarrow> jsval option) \<Rightarrow> (player \<Rightarrow> player) \<Rightarrow>
   player_op \<Rightarrow> player \<Rightarrow> player" where
  "player_step stringify parse switchNode oper p =
     (case oper of
        Connect data \<Rightarrow> connect_player stringify data p
      | Disconnect msg \<Rightarrow> state_of (disconnect stringify msg p)
      | Play trk opts now \<Rightarrow> state_of (play stringify switchNode now trk opts p)
      | Stop \<Rightarrow> stop stringify p
      | StateUpdate st \<Rightarrow> stateUpdate st p
      | SetPause b \<Rightarrow> state_of (setPause stringify b p)
      | SetEqualizer bands \<Rightarrow> state_of (setEqualizer stringify bands p)
      | Destroy \<Rightarrow> state_of (destroy_player stringify p)
      | Pause \<Rightarrow> state_of (pause stringify p)
      | Resume \<Rightarrow> state_of (resume stringify p)
      | Seek position \<Rightarrow> state_of (seek stringify position p)
      | SetVolume volume \<Rightarrow> state_of (setVolume stringify volume p)
      | OnTrackEnd message \<Rightarrow> state_of (onTrackEnd message p)
      | OnTrackException message \<Rightarrow> onTrackException message p
      | OnTrackStuck message \<Rightarrow> onTrackStuck stringify message p
      | SwitchChannel chan reactive \<Rightarrow> switchChannel chan reactive p
      | UpdateVoiceState chan selfMute selfDeaf \<Rightarrow> updateVoiceState chan selfMute selfDeaf p
      | QueueEvent data \<Rightarrow> queueEvent stringify data p
      | SendEvent data \<Rightarrow> sendEvent stringify data p
      | CheckQueue \<Rightarrow> checkEventQueue stringify p
      | Tick \<Rightarrow> tick stringify p
      | NodeEvent ev \<Rightarrow> p\<lparr>node := node_step stringify parse ev (node p)\<rparr>
      | SetDraining b \<Rightarrow> p\<lparr>node := (node p)\<lparr>draining := b\<rparr>\<rparr>)"

primrec player_run ::
  "(jsval \<Rightarrow> jsval option) \<Rightarrow> (string \<Rightarrow> jsval option) \<Rightarrow> (player \<Rightarrow> player) \<Rightarrow>
   player_op list \<Rightarrow> player \<Rightarrow> player" where
  "player_run stringify parse switchNode [] p = p"
| "player_run stringify parse switchNode (oper # opers) p =
     player_run stringify parse switchNode opers (player_step stringify parse switchNode oper p)"

text \<open>The payloads handed to \<open>node.send\<close>, oldest first.\<close>

fun node_sends :: "effect list \<Rightarrow> jsval list" where
  "node_sends [] = []"
| "node_sends (NodeSend d # es) = d # node_sends es"
| "node_sends (e # es) = node_sends es"

text \<open>
  The traffic through the queue alone: calls of \<open>queueEvent\<close> interleaved with
  scheduling turns.
\<close>

datatype queue_action = Enqueue jsval | NextTick

fun queue_run :: "(jsval \<Rightarrow> jsval option) \<Rightarrow> queue_action list \<Rightarrow> player \<Rightarrow> player" where
  "queue_run stringify [] p = p"
| "queue_run stringify (Enqueue d # acts) p = queue_run stringify acts (queueEvent stringify d p)"
| "queue_run stringify (NextTick # acts) p = queue_run stringify acts (tick stringify p)"

fun enqueued :: "queue_action list \<Rightarrow> jsval list" where
  "enqueued [] = []"
| "enqueued (Enqueue d # acts) = d # enqueued acts"
| "enqueued (NextTick # acts) = enqueued acts"

text \<open>Everything that was handed to any socket of a node.\<close>

definition transmitted :: "lavalink \<Rightarrow> jsval list" where
  "transmitted n = concat (map outbox (sockets n))"

section \<open>Auxiliary predicates and example inputs\<close>

text \<open>
  The pending timers of a node are none, or the single one whose handle
  \<open>reconnectInterval\<close> holds.
\<close>

definition timer_inv :: "lavalink \<Rightarrow> bool" where
  "timer_inv n =
     (timers n = [] \<or>
      (length (timers n) = 1 \<and> reconnectInterval n = Some (fst (hd (timers n)))))"

text \<open>
  The node after \<open>k\<close> failed attempts in a row: it holds its \<open>k\<close>-th new socket, the
  timer registered by the \<open>k\<close>-th \<open>reconnect\<close> is pending, and \<open>retries\<close> is \<open>k\<close>.
\<close>

definition backoff_state :: "nat \<Rightarrow> lavalink \<Rightarrow> bool" where
  "backoff_state k n =
     (ws n = Some k \<and> length (sockets n) = Suc k \<and> list_all close_listener (sockets n) \<and>
      reconnectInterval n = Some k \<and> map fst (timers n) = [k] \<and> retries n = int k \<and>
      next_timer n = Suc k)"

text \<open>The delay \<open>retryInterval\<close> computes when the counter \<open>retries\<close> is \<open>r\<close>.\<close>

definition backoff :: "int \<Rightarrow> int" where
  "backoff r = (min (r - 1) 5 + 5) ^ 2 * 1000"

definition localhost_options :: node_options where
  "localhost_options =
     \<lparr>opt_host = ''localhost'', opt_port = None, opt_region = None, opt_numShards = 1,
      opt_userId = ''1'', opt_password = None, opt_timeout = None\<rparr>"

text \<open>
  Example inputs: a node whose first socket has opened, one whose first socket is
  still connecting, one whose first socket has closed, a session on a given node,
  and the payloads of a voice handshake.
\<close>

definition node_up :: lavalink where
  "node_up = socket_open 0 (new_lavalink localhost_options)"

definition node_connecting :: lavalink where
  "node_connecting = new_lavalink localhost_options"

definition node_down :: lavalink where
  "node_down = socket_close 0 (new_lavalink localhost_options)"

definition example_player :: "lavalink \<Rightarrow> player" where
  "example_player n =
     new_player (JStr ''1'')
       \<lparr>d_hostname = ''localhost'', d_guildId = JStr ''1'', d_channelId = JStr ''2'',
        d_shard_sendWS = True, d_node = n, d_manager = Some PlayerManagerRef,
        d_options = JUndefined\<rparr> 0"

definition example_connect_data :: connect_data where
  "example_connect_data =
     \<lparr>data_guildId = JStr ''1'', data_sessionId = JStr ''session'',
      data_event = JObj [(''token'', JStr ''t''), (''endpoint'', JStr ''e'')]\<rparr>"

definition stop_command :: jsval where
  "stop_command = JObj [(''op'', JStr ''stop''), (''guildId'', JStr ''1'')]"

definition destroy_command :: jsval where
  "destroy_command = JObj [(''op'', JStr ''destroy''), (''guildId'', JStr ''1'')]"

text \<open>
  \<open>JSON.stringify\<close> and \<open>JSON.parse\<close> at the values the examples below use; the
  theorems hold for every pair of functions in their place.
\<close>

definition stringify_example :: "jsval \<Rightarrow> jsval option" where
  \<open>stringify_example d =
     (if d = JObj [(''op'', JStr ''stop''), (''guildId'', JStr ''1'')]
      then Some (JStr ''{"op":"stop","guildId":"1"}'')
      else if d = JObj [(''op'', JStr ''destroy''), (''guildId'', JStr ''1'')]
      then Some (JStr ''{"op":"destroy","guildId":"1"}'')
      else if d = voiceUpdate_payload example_connect_data
      then Some (JStr
        ''{"op":"voiceUpdate","guildId":"1","sessionId":"session","event":{"token":"t","endpoint":"e"}}'')
      else if d = JNum 1 then Some (JStr ''1'')
      else if d = JUndefined then Some JUndefined
      else None)\<close>

definition parse_example :: "string \<Rightarrow> jsval option" where
  \<open>parse_example m =
     (if m = ''{"op":"stats","players":3,"playingPlayers":2}''
      then Some (JObj [(''op'', JStr ''stats''), (''players'', JNum 3),
                       (''playingPlayers'', JNum 2)])
      else if m = ''{"op":"playerUpdate","guildId":"1"}''
      then Some (JObj [(''op'', JStr ''playerUpdate''), (''guildId'', JStr ''1'')])
      else if m = ''null'' then Some JNull
      else None)\<close>

section \<open>The node: reconnect timers\<close>

lemma timer_inv_cases:
  "timer_inv n \<Longrightarrow>
   timers n = [] \<or> (\<exists>t d. timers n = [(t, d)] \<and> reconnectInterval n = Some t)"
  by (cases "timers n") (auto simp: timer_inv_def)

lemma timer_inv_connect: "timer_inv (connect n) = timer_inv n"
  by (simp add: timer_inv_def connect_def Let_def)

lemma timer_inv_emit: "timer_inv (emit sig n) = timer_inv n"
  by (simp add: timer_inv_def emit_def)

lemma timer_inv_new: "timer_inv (new_lavalink opts)"
  by (simp add: timer_inv_def new_lavalink_def connect_def Let_def)

lemma timer_inv_ready: "timer_inv n \<Longrightarrow> timer_inv (ready n)"
  by (drule timer_inv_cases)
    (auto simp: timer_inv_def ready_def emit_def clearTimeout_def Let_def split: option.splits)

lemma timer_inv_disconnected: "timer_inv n \<Longrightarrow> timer_inv (disconnected n)"
  by (drule timer_inv_cases)
    (auto simp: timer_inv_def disconnected_def emit_def setTimeout_def Let_def)

lemma timer_inv_timer_fired: "timer_inv n \<Longrightarrow> timer_inv (timer_fired t n)"
  by (drule timer_inv_cases)
    (auto simp: timer_inv_def timer_fired_def reconnect_def connect_def setTimeout_def Let_def)

lemma timer_inv_set_readyState: "timer_inv (set_readyState sid st n) = timer_inv n"
  by (simp add: timer_inv_def set_readyState_def)

lemma timer_inv_send: "timer_inv n \<Longrightarrow> send sf d n = Inr n' \<Longrightarrow> timer_inv n'"
  by (auto simp: timer_inv_def send_def ws_send_def emit_def split: option.splits if_splits)

lemma timer_inv_destroy: "timer_inv n \<Longrightarrow> timer_inv (destroy n)"
  by (auto simp: timer_inv_def destroy_def split: option.splits)

lemma timer_inv_onMessage: "timer_inv n \<Longrightarrow> onMessage parse m n = Inr n' \<Longrightarrow> timer_inv n'"
  by (auto simp: timer_inv_def onMessage_def emit_def Let_def
      split: option.splits sum.splits if_splits)

lemma timer_inv_step: "timer_inv n \<Longrightarrow> timer_inv (node_step sf parse ev n)"
  by (cases ev)
    (auto simp: node_step_def socket_open_def socket_close_def timer_inv_ready
      timer_inv_disconnected timer_inv_timer_fired timer_inv_destroy timer_inv_emit
      timer_inv_set_readyState
      dest: timer_inv_onMessage timer_inv_send split: sum.splits)

lemma timer_inv_run: "timer_inv n \<Longrightarrow> timer_inv (node_run sf parse evs n)"
  by (induction evs arbitrary: n) (auto simp: timer_inv_step)

lemma timer_inv_length: "timer_inv n \<Longrightarrow> length (timers n) \<le> 1"
  by (auto simp: timer_inv_def)

lemma ready_resets:
  "timer_inv n \<Longrightarrow>
   retries (ready n) = 0 \<and> timers (ready n) = [] \<and> reconnectInterval (ready n) = None"
  by (drule timer_inv_cases)
    (auto simp: ready_def emit_def clearTimeout_def Let_def split: option.splits)

text \<open>
  C6. Whatever events a node has lived through since its construction (sockets
  opening, closing, failing, delivering messages; timers expiring; calls of \<open>send\<close>
  and \<open>destroy\<close>), at most one reconnect timer is pending; and \<open>ready\<close>, run in any
  such state, leaves the retry counter at 0, no timer pending and the timer handle
  cleared.
\<close>

theorem single_reconnect_timer:
  "length (timers (node_run sf parse evs (new_lavalink opts))) \<le> 1 \<and>
   retries (ready (node_run sf parse evs (new_lavalink opts))) = 0 \<and>
   timers (ready (node_run sf parse evs (new_lavalink opts))) = [] \<and>
   reconnectInterval (ready (node_run sf parse evs (new_lavalink opts))) = None"
proof -
  have inv: "timer_inv (node_run sf parse evs (new_lavalink opts))"
    by (rule timer_inv_run) (rule timer_inv_new)
  show ?thesis
    using timer_inv_length [OF inv] ready_resets [OF inv] by simp
qed

section \<open>The node: backoff delays\<close>

lemma list_all_update: "list_all P xs \<Longrightarrow> P x \<Longrightarrow> list_all P (xs[i := x])"
  by (induction xs arbitrary: i) (auto split: nat.splits)

lemma backoff_first:
  "backoff_state 1 (failed_attempt (new_lavalink opts)) \<and>
   scheduled (failed_attempt (new_lavalink opts)) =
     [reconnectTimeout (new_lavalink opts), backoff 0] \<and>
   reconnectTimeout (failed_attempt (new_lavalink opts)) = reconnectTimeout (new_lavalink opts)"
  by (simp add: backoff_state_def backoff_def failed_attempt_def new_lavalink_def connect_def
      socket_close_def set_readyState_def disconnected_def emit_def setTimeout_def
      timer_fired_def reconnect_def retryInterval_def Let_def)

lemma backoff_step:
  assumes "backoff_state k n"
  shows "backoff_state (Suc k) (failed_attempt n) \<and>
         scheduled (failed_attempt n) = scheduled n @ [backoff (int k)] \<and>
         reconnectTimeout (failed_attempt n) = reconnectTimeout n"
proof -
  from assms have cl: "close_listener (sockets n ! k)"
    by (simp add: backoff_state_def list_all_length)
  from assms obtain d where t: "timers n = [(k, d)]"
    by (cases "timers n") (auto simp: backoff_state_def)
  from assms cl have la:
    "list_all close_listener ((sockets n)[k := (sockets n ! k)\<lparr>readyState := Closed\<rparr>])"
    by (simp add: backoff_state_def list_all_update)
  from assms cl t la show ?thesis
    by (simp add: backoff_state_def backoff_def failed_attempt_def connect_def socket_close_def
        set_readyState_def disconnected_def emit_def setTimeout_def timer_fired_def
        reconnect_def retryInterval_def Let_def)
qed

lemma backoff_iterate:
  "backoff_state (Suc k) ((failed_attempt ^^ Suc k) (new_lavalink opts)) \<and>
   scheduled ((failed_attempt ^^ Suc k) (new_lavalink opts)) =
     reconnectTimeout (new_lavalink opts) # map (\<lambda>i. backoff (int i)) [0..<Suc k] \<and>
   reconnectTimeout ((failed_attempt ^^ Suc k) (new_lavalink opts)) =
     reconnectTimeout (new_lavalink opts)"
proof (induction k)
  case 0
  show ?case using backoff_first [of opts] by simp
next
  case (Suc k)
  let ?n = "(failed_attempt ^^ Suc k) (new_lavalink opts)"
  from Suc have st: "backoff_state (Suc k) ?n" by blast
  have eq: "(failed_attempt ^^ Suc (Suc k)) (new_lavalink opts) = failed_attempt ?n" by simp
  show ?case
    unfolding eq using backoff_step [OF st] Suc by simp
qed

text \<open>
  C1, as the code has it. \<open>retryInterval\<close> returns \<open>(min(r-1,5)+5)^2 * 1000\<close> for the
  value \<open>r\<close> the counter \<open>retries\<close> has when it is called, 100000 from \<open>r = 6\<close> on. The
  first timer after a close is set by \<open>disconnected\<close> with \<open>reconnectTimeout\<close> (5000
  unless configured), and \<open>reconnect\<close> reads the counter before incrementing it: the
  delays a node schedules over \<open>k + 1\<close> failed attempts in a row are
  \<open>reconnectTimeout\<close>, then the formula at \<open>r = 0, 1, ..., k\<close>, that is 16000, 25000,
  36000, ...
\<close>

theorem reconnect_backoff_delays:
  "retryInterval n = (min (retries n - 1) 5 + 5) ^ 2 * 1000 \<and>
   retryInterval (n\<lparr>retries := 6 + int j\<rparr>) = 100000 \<and>
   reconnectTimeout (new_lavalink (opts\<lparr>opt_timeout := None\<rparr>)) = 5000 \<and>
   scheduled ((failed_attempt ^^ Suc k) (new_lavalink opts)) =
     reconnectTimeout (new_lavalink opts) #
     map (\<lambda>i. (min (int i - 1) 5 + 5) ^ 2 * 1000) [0..<Suc k]"
proof -
  have a: "retryInterval n = (min (retries n - 1) 5 + 5) ^ 2 * 1000"
    by (simp add: retryInterval_def Let_def)
  have b: "retryInterval (n\<lparr>retries := 6 + int j\<rparr>) = 100000"
    by (simp add: retryInterval_def Let_def)
  have c: "reconnectTimeout (new_lavalink (opts\<lparr>opt_timeout := None\<rparr>)) = 5000"
    by (simp add: new_lavalink_def connect_def Let_def)
  have d: "scheduled ((failed_attempt ^^ Suc k) (new_lavalink opts)) =
     reconnectTimeout (new_lavalink opts) #
     map (\<lambda>i. (min (int i - 1) 5 + 5) ^ 2 * 1000) [0..<Suc k]"
    using backoff_iterate [of k opts] by (simp add: backoff_def)
  from a b c d show ?thesis by blast
qed

text \<open>
  The claim's scenario on the code: a fresh node with the default options whose first
  three sockets all close without opening. The delays passed to \<open>setTimeout\<close> are
  5000, 16000, 25000, not 25000, 36000, 49000; the delay before the first reconnect
  attempt is 5000, not the formula's 25000.
\<close>

theorem reconnect_backoff_delays_counterexample:
  "scheduled (node_run stringify_example parse_example
      [SocketClose 0, TimerFired 0, SocketClose 1, TimerFired 1, SocketClose 2]
      (new_lavalink localhost_options)) = [5000, 16000, 25000] \<and>
   scheduled (node_run stringify_example parse_example
      [SocketClose 0, TimerFired 0, SocketClose 1, TimerFired 1, SocketClose 2]
      (new_lavalink localhost_options)) \<noteq> [25000, 36000, 49000]"
  by (simp add: localhost_options_def new_lavalink_def connect_def node_step_def
      socket_close_def set_readyState_def disconnected_def emit_def setTimeout_def
      timer_fired_def reconnect_def retryInterval_def Let_def)

section \<open>The node: sending and receiving\<close>

text \<open>
  C4, as the code has it. \<open>send\<close> on a node that holds no socket returns at once and
  changes nothing: nothing is handed to a socket, nothing is kept for later, and no
  signal fires. While the node holds a socket, an error signal fires only when the
  serialisation throws, and nothing is handed over then; a payload that serialises
  is handed to the socket if it is open, with no signal, and is kept nowhere else.
\<close>

theorem send_without_socket:
  "(ws n = None \<longrightarrow> send sf d n = Inr n) \<and>
   (ws n \<noteq> None \<and> sf d = None \<longrightarrow>
      send sf d n = Inr (emit (NError ''Unable to stringify payload.'') n)) \<and>
   (\<forall>sid payload. ws n = Some sid \<and> sf d = Some payload \<and>
        readyState (sockets n ! sid) = Open \<longrightarrow>
      send sf d n =
        Inr (n\<lparr>sockets := (sockets n)[sid := (sockets n ! sid)
                   \<lparr>outbox := outbox (sockets n ! sid) @ [payload]\<rparr>]\<rparr>))"
  by (auto simp: send_def ws_send_def split: option.splits)

lemma node_up_fields:
  "\<not> draining node_up" "ws node_up = Some 0" "connected node_up"
  "readyState (sockets node_up ! 0) = Open" "length (sockets node_up) = 1"
  "outbox (sockets node_up ! 0) = []" "emitted node_up = [NReady]"
  by (simp_all add: node_up_def localhost_options_def new_lavalink_def connect_def
      socket_open_def set_readyState_def ready_def emit_def Let_def)

lemma node_down_fields:
  "\<not> draining node_down" "ws node_down = None" "\<not> connected node_down"
  "transmitted node_down = []" "emitted node_down = [NDisconnect]"
  by (simp_all add: node_down_def localhost_options_def new_lavalink_def connect_def
      socket_close_def set_readyState_def disconnected_def setTimeout_def emit_def
      transmitted_def Let_def)

lemma node_connecting_fields:
  "\<not> draining node_connecting" "ws node_connecting = Some 0" "\<not> connected node_connecting"
  "readyState (sockets node_connecting ! 0) = Connecting" "transmitted node_connecting = []"
  "emitted node_connecting = []"
  by (simp_all add: node_connecting_def localhost_options_def new_lavalink_def connect_def
      transmitted_def Let_def)

theorem send_without_socket_witness:
  "ws node_down = None \<and>
   send stringify_example (JNum 1) node_down = Inr node_down \<and>
   ws node_up = Some 0 \<and>
   stringify_example (JBigInt 1) = None \<and>
   send stringify_example (JBigInt 1) node_up =
     Inr (emit (NError ''Unable to stringify payload.'') node_up) \<and>
   stringify_example (JNum 1) = Some (JStr ''1'') \<and>
   readyState (sockets node_up ! 0) = Open \<and>
   send stringify_example (JNum 1) node_up =
     Inr (node_up\<lparr>sockets := (sockets node_up)[0 := (sockets node_up ! 0)
                     \<lparr>outbox := outbox (sockets node_up ! 0) @ [JStr ''1'']\<rparr>]\<rparr>)"
proof -
  have h1: "ws node_down = None" by (rule node_down_fields)
  have h2: "ws node_up = Some 0" by (rule node_up_fields)
  have h3: "stringify_example (JBigInt 1) = None"
    by (simp add: stringify_example_def voiceUpdate_payload_def)
  have h4: "stringify_example (JNum 1) = Some (JStr ''1'')"
    by (simp add: stringify_example_def voiceUpdate_payload_def)
  have h5: "readyState (sockets node_up ! 0) = Open" by (rule node_up_fields)
  have a: "send stringify_example (JNum 1) node_down = Inr node_down"
    using send_without_socket [of node_down stringify_example "JNum 1"] h1 by blast
  have b: "send stringify_example (JBigInt 1) node_up =
      Inr (emit (NError ''Unable to stringify payload.'') node_up)"
    using send_without_socket [of node_up stringify_example "JBigInt 1"] h2 h3 by simp
  have c: "send stringify_example (JNum 1) node_up =
      Inr (node_up\<lparr>sockets := (sockets node_up)[0 := (sockets node_up ! 0)
                      \<lparr>outbox := outbox (sockets node_up ! 0) @ [JStr ''1'']\<rparr>]\<rparr>)"
    using send_without_socket [of node_up stringify_example "JNum 1"] h2 h4 h5 by blast
  from h1 h2 h3 h4 h5 a b c show ?thesis by blast
qed

text \<open>
  The claim on the code: a node whose socket has closed is not connected and holds no
  socket; \<open>send\<close> returns the node unchanged, so no error signal has fired.
\<close>

theorem send_without_socket_counterexample:
  "\<not> connected node_down \<and>
   ws node_down = None \<and>
   emitted node_down = [NDisconnect] \<and>
   send stringify_example (JNum 1) node_down = Inr node_down"
  by (simp add: node_down_fields send_def)

text \<open>
  On a node that holds a socket which is not open \<open>send\<close> throws what the socket's
  own \<open>send\<close> throws, for a payload that serialises: so it is on a fresh node, whose
  socket is still connecting.
\<close>

lemma send_not_open_throws:
  "ws n = Some sid \<Longrightarrow> sf d = Some payload \<Longrightarrow> readyState (sockets n ! sid) \<noteq> Open \<Longrightarrow>
   send sf d n = Inl NotOpened"
  by (simp add: send_def ws_send_def)

lemma send_connecting_example: "send stringify_example (JNum 1) node_connecting = Inl NotOpened"
  using send_not_open_throws [of node_connecting 0 stringify_example "JNum 1" "JStr ''1''"]
  by (simp add: node_connecting_fields stringify_example_def voiceUpdate_payload_def)

text \<open>
  C5, as the code has it. A message that does not parse fires an error signal and
  changes nothing else. A parsed payload whose \<open>op\<close> is \<open>stats\<close> replaces the node's
  statistics and is then forwarded through the message signal like any other; every
  other parsed payload whose \<open>op\<close> can be read is forwarded through the message
  signal and leaves the statistics alone.
\<close>

theorem onMessage_cases:
  "(parse m = None \<longrightarrow>
      onMessage parse m n = Inr (emit (NError ''Unable to parse ws message.'') n)) \<and>
   (\<forall>data. parse m = Some data \<and> get_prop data ''op'' = Inr (JStr ''stats'') \<longrightarrow>
      onMessage parse m n = Inr (emit (NMessage data) (n\<lparr>stats := data\<rparr>))) \<and>
   (\<forall>data v. parse m = Some data \<and> get_prop data ''op'' = Inr v \<and> v \<noteq> JStr ''stats'' \<longrightarrow>
      onMessage parse m n = Inr (emit (NMessage data) n))"
  by (auto simp: onMessage_def Let_def)

theorem onMessage_cases_witness:
  \<open>parse_example ''not json'' = None \<and>
   onMessage parse_example ''not json'' (new_lavalink localhost_options) =
     Inr (emit (NError ''Unable to parse ws message.'') (new_lavalink localhost_options)) \<and>
   parse_example ''{"op":"stats","players":3,"playingPlayers":2}'' =
     Some (JObj [(''op'', JStr ''stats''), (''players'', JNum 3), (''playingPlayers'', JNum 2)]) \<and>
   onMessage parse_example ''{"op":"stats","players":3,"playingPlayers":2}''
       (new_lavalink localhost_options) =
     Inr (emit (NMessage (JObj [(''op'', JStr ''stats''), (''players'', JNum 3),
                                (''playingPlayers'', JNum 2)]))
           ((new_lavalink localhost_options)
              \<lparr>stats := JObj [(''op'', JStr ''stats''), (''players'', JNum 3),
                              (''playingPlayers'', JNum 2)]\<rparr>)) \<and>
   parse_example ''{"op":"playerUpdate","guildId":"1"}'' =
     Some (JObj [(''op'', JStr ''playerUpdate''), (''guildId'', JStr ''1'')]) \<and>
   onMessage parse_example ''{"op":"playerUpdate","guildId":"1"}''
       (new_lavalink localhost_options) =
     Inr (emit (NMessage (JObj [(''op'', JStr ''playerUpdate''), (''guildId'', JStr ''1'')]))
           (new_lavalink localhost_options))\<close>
proof -
  let ?n = "new_lavalink localhost_options"
  let ?s = \<open>''{"op":"stats","players":3,"playingPlayers":2}''\<close>
  let ?sd = "JObj [(''op'', JStr ''stats''), (''players'', JNum 3), (''playingPlayers'', JNum 2)]"
  let ?u = \<open>''{"op":"playerUpdate","guildId":"1"}''\<close>
  let ?ud = "JObj [(''op'', JStr ''playerUpdate''), (''guildId'', JStr ''1'')]"
  have h1: "parse_example ''not json'' = None"
    by (simp add: parse_example_def)
  have h2: "parse_example ?s = Some ?sd"
    by (simp add: parse_example_def)
  have h2': "get_prop ?sd ''op'' = Inr (JStr ''stats'')"
    by simp
  have h3: "parse_example ?u = Some ?ud"
    by (simp add: parse_example_def)
  have h3': "get_prop ?ud ''op'' = Inr (JStr ''playerUpdate'') \<and> JStr ''playerUpdate'' \<noteq> JStr ''stats''"
    by simp
  have a: "onMessage parse_example ''not json'' ?n =
      Inr (emit (NError ''Unable to parse ws message.'') ?n)"
    using onMessage_cases [of parse_example "''not json''" ?n] h1 by blast
  have b: "onMessage parse_example ?s ?n = Inr (emit (NMessage ?sd) (?n\<lparr>stats := ?sd\<rparr>))"
    using onMessage_cases [of parse_example ?s ?n] h2 h2' by blast
  have c: "onMessage parse_example ?u ?n = Inr (emit (NMessage ?ud) ?n)"
    using onMessage_cases [of parse_example ?u ?n] h3 h3' by blast
  from h1 h2 h3 a b c show ?thesis by blast
qed

text \<open>
  The claim on the code: a \<open>stats\<close> payload updates the statistics and is forwarded
  through the message signal all the same.
\<close>

theorem onMessage_cases_counterexample:
  \<open>onMessage parse_example ''{"op":"stats","players":3,"playingPlayers":2}''
       (new_lavalink localhost_options) =
     Inr (emit (NMessage (JObj [(''op'', JStr ''stats''), (''players'', JNum 3),
                                (''playingPlayers'', JNum 2)]))
           ((new_lavalink localhost_options)
              \<lparr>stats := JObj [(''op'', JStr ''stats''), (''players'', JNum 3),
                              (''playingPlayers'', JNum 2)]\<rparr>)) \<and>
   emitted (emit (NMessage (JObj [(''op'', JStr ''stats''), (''players'', JNum 3),
                                  (''playingPlayers'', JNum 2)]))
             ((new_lavalink localhost_options)
                \<lparr>stats := JObj [(''op'', JStr ''stats''), (''players'', JNum 3),
                                (''playingPlayers'', JNum 2)]\<rparr>)) =
     [NMessage (JObj [(''op'', JStr ''stats''), (''players'', JNum 3),
                      (''playingPlayers'', JNum 2)])]\<close>
  by (simp add: localhost_options_def new_lavalink_def connect_def onMessage_def
      parse_example_def emit_def Let_def)

text \<open>
  The JSON text \<open>null\<close> parses, and reading \<open>op\<close> of the result throws: such a
  message is neither reported through the error signal nor forwarded.
\<close>

lemma onMessage_null_throws: "parse m = Some JNull \<Longrightarrow> onMessage parse m n = Inl TypeError"
  by (simp add: onMessage_def)

section \<open>The session: the queue is never used\<close>

lemma node_sends_append: "node_sends (xs @ ys) = node_sends xs @ node_sends ys"
  by (induction xs rule: node_sends.induct) auto

lemma send_draining: "send sf d n = Inr n' \<Longrightarrow> draining n' = draining n"
  by (auto simp: send_def ws_send_def emit_def split: option.splits if_splits)

lemma sendEvent_fields:
  "sendQueue (sendEvent sf d p) = sendQueue p \<and>
   effects (sendEvent sf d p) = effects p @ [NodeSend d] \<and>
   ticks (sendEvent sf d p) =
     ticks p @ (if isl (send sf d (node p)) then [] else [CheckEventQueue]) \<and>
   draining (node (sendEvent sf d p)) = draining (node p) \<and>
   guildId (sendEvent sf d p) = guildId p"
  by (auto simp: sendEvent_def nextTick_def node_send_def send_draining split: sum.splits)

lemma sendEvent_node:
  "node (sendEvent sf d p) = (case send sf d (node p) of Inl e \<Rightarrow> node p | Inr n \<Rightarrow> n)"
  by (simp add: sendEvent_def nextTick_def node_send_def split: sum.splits)

lemma queueEvent_empty: "sendQueue p = [] \<Longrightarrow> queueEvent sf d p = sendEvent sf d p"
  by (simp add: queueEvent_def)

lemma checkEventQueue_empty: "sendQueue p = [] \<Longrightarrow> checkEventQueue sf p = p"
  by (simp add: checkEventQueue_def)

lemma tick_empty_queue:
  "sendQueue p = [] \<Longrightarrow>
   sendQueue (tick sf p) = [] \<and> node_sends (effects (tick sf p)) = node_sends (effects p) \<and>
   node (tick sf p) = node p \<and> guildId (tick sf p) = guildId p"
  by (auto simp: tick_def run_callback_def checkEventQueue_def emit_player_def node_sends_append
      split: list.splits callback.splits)

lemma queue_run_empty:
  "sendQueue p = [] \<Longrightarrow>
   sendQueue (queue_run sf acts p) = [] \<and>
   node_sends (effects (queue_run sf acts p)) = node_sends (effects p) @ enqueued acts \<and>
   draining (node (queue_run sf acts p)) = draining (node p) \<and>
   guildId (queue_run sf acts p) = guildId p"
proof (induction sf acts p rule: queue_run.induct)
  case (1 sf p)
  then show ?case by simp
next
  case (2 sf d acts p)
  from 2(2) have q: "queueEvent sf d p = sendEvent sf d p" by (rule queueEvent_empty)
  have e: "sendQueue (sendEvent sf d p) = []" using 2(2) by (simp add: sendEvent_fields)
  show ?case
    using 2(1) [unfolded q, OF e] by (simp add: q sendEvent_fields node_sends_append)
next
  case (3 sf acts p)
  from tick_empty_queue [OF 3(2), of sf] 3(1) show ?case by simp
qed

lemma queue_untouched:
  "sendQueue (state_of (node_send sf d p)) = sendQueue p"
  "sendQueue (nextTick cb p) = sendQueue p"
  "sendQueue (emit_player sig p) = sendQueue p"
  by (simp_all add: node_send_def state_of_def nextTick_def emit_player_def split: sum.splits)

lemma sendEvent_queue: "sendQueue (sendEvent sf d p) = sendQueue p"
  by (simp add: sendEvent_fields)

lemma queueEvent_queue_empty: "sendQueue p = [] \<Longrightarrow> sendQueue (queueEvent sf d p) = []"
  by (simp add: queueEvent_empty sendEvent_queue)

lemma stop_queue_empty: "sendQueue p = [] \<Longrightarrow> sendQueue (stop sf p) = []"
  by (simp add: stop_def Let_def queueEvent_queue_empty)

lemma setPause_queue: "sendQueue (state_of (setPause sf b p)) = sendQueue p"
  by (simp add: setPause_def node_send_def state_of_def Let_def split: sum.splits)

lemma resume_queue: "sendQueue (state_of (resume sf p)) = sendQueue p"
  using setPause_queue [of sf False p] by (simp add: resume_def state_of_def)

lemma pause_queue: "sendQueue (state_of (pause sf p)) = sendQueue p"
  using setPause_queue [of sf True p] by (simp add: pause_def state_of_def)

lemma connect_player_queue_empty: "sendQueue p = [] \<Longrightarrow> sendQueue (connect_player sf d p) = []"
  by (simp add: connect_player_def Let_def queue_untouched queueEvent_queue_empty)

lemma disconnect_queue_empty:
  assumes "sendQueue p = []"
  shows "sendQueue (state_of (disconnect sf msg p)) = []"
proof -
  let ?p1 = "p\<lparr>playing := False\<rparr>"
  let ?r = "if paused ?p1 then resume sf ?p1 else Inr ?p1"
  have r: "sendQueue (state_of ?r) = []"
    using assms resume_queue [of sf ?p1] by (simp add: state_of_def)
  show ?thesis
  proof (cases ?r)
    case (Inl ep)
    with r show ?thesis
      by (simp add: disconnect_def disconnect_inner_def Let_def state_of_def)
  next
    case (Inr p2)
    with r have "sendQueue p2 = []" by (simp add: state_of_def)
    with Inr show ?thesis
      by (simp add: disconnect_def disconnect_inner_def Let_def state_of_def queue_untouched
          queueEvent_queue_empty stop_queue_empty)
  qed
qed

lemma play_queue_empty:
  assumes sw: "\<And>q. sendQueue q = [] \<Longrightarrow> sendQueue (sw q) = []" and e: "sendQueue p = []"
  shows "sendQueue (state_of (play sf sw now trk opts p)) = []"
  using e
  by (auto simp: play_def state_of_def Let_def queueEvent_queue_empty intro!: sw
      split: option.splits)

lemma onTrackEnd_queue: "sendQueue (state_of (onTrackEnd m p)) = sendQueue p"
  by (simp add: onTrackEnd_def state_of_def Let_def queue_untouched split: sum.splits)

lemma onTrackStuck_queue_empty: "sendQueue p = [] \<Longrightarrow> sendQueue (onTrackStuck sf m p) = []"
  by (simp add: onTrackStuck_def queue_untouched stop_queue_empty)

lemma switchChannel_queue: "sendQueue (switchChannel c r p) = sendQueue p"
  by (simp add: switchChannel_def updateVoiceState_def Let_def)

lemma tick_queue_empty: "sendQueue p = [] \<Longrightarrow> sendQueue (tick sf p) = []"
  by (simp add: tick_empty_queue)

lemma step_queue_empty:
  assumes sw: "\<And>q. sendQueue q = [] \<Longrightarrow> sendQueue (sw q) = []" and e: "sendQueue p = []"
  shows "sendQueue (player_step sf parse sw oper p) = []"
proof (cases oper)
  case (Play trk opts now)
  then show ?thesis using play_queue_empty [OF sw e] by (simp add: player_step_def)
qed (use e in \<open>simp_all add: player_step_def connect_player_queue_empty disconnect_queue_empty
      stop_queue_empty stateUpdate_def setPause_queue setEqualizer_def destroy_player_def
      pause_queue resume_queue seek_def setVolume_def onTrackEnd_queue onTrackException_def
      onTrackStuck_queue_empty switchChannel_queue updateVoiceState_def queueEvent_queue_empty
      sendEvent_queue checkEventQueue_empty tick_queue_empty queue_untouched\<close>)

lemma run_queue_empty:
  assumes sw: "\<And>q. sendQueue q = [] \<Longrightarrow> sendQueue (sw q) = []"
  shows "sendQueue p = [] \<Longrightarrow> sendQueue (player_run sf parse sw opers p) = []"
  by (induction opers arbitrary: p) (simp_all add: step_queue_empty [OF sw])

lemma new_player_queue: "sendQueue (new_player ident d now) = []"
  by (simp add: new_player_def)

lemma identity_keeps_queue: "sendQueue q = [] \<Longrightarrow> sendQueue ((\<lambda>q. q) q) = []"
  by simp

text \<open>
  C10. After any sequence of calls of the session's methods, scheduling turns and node
  events since construction, the pending queue is empty; hence \<open>queueEvent\<close> takes
  its immediate-send branch and \<open>checkEventQueue\<close> dequeues nothing. The manager's
  \<open>switchNode\<close>, whose code is not at hand, is assumed not to fill the queue itself.
\<close>

theorem sendQueue_always_empty:
  assumes "\<And>q. sendQueue q = [] \<Longrightarrow> sendQueue (switchNode q) = []"
  shows "sendQueue (player_run sf parse switchNode opers (new_player ident d now)) = [] \<and>
         queueEvent sf x (player_run sf parse switchNode opers (new_player ident d now)) =
           sendEvent sf x (player_run sf parse switchNode opers (new_player ident d now)) \<and>
         checkEventQueue sf (player_run sf parse switchNode opers (new_player ident d now)) =
           player_run sf parse switchNode opers (new_player ident d now)"
proof -
  have e: "sendQueue (player_run sf parse switchNode opers (new_player ident d now)) = []"
    by (rule run_queue_empty [of switchNode, OF assms new_player_queue])
  from e queueEvent_empty [OF e] checkEventQueue_empty [OF e] show ?thesis by simp
qed

theorem sendQueue_always_empty_witness:
  "sendQueue (player_run stringify_example parse_example (\<lambda>q. q)
      [Connect example_connect_data, Play (JStr ''track'') None 7, Tick, Stop, Tick, Tick]
      (new_player (JStr ''1'')
         \<lparr>d_hostname = ''localhost'', d_guildId = JStr ''1'', d_channelId = JStr ''2'',
          d_shard_sendWS = True, d_node = node_up, d_manager = Some PlayerManagerRef,
          d_options = JUndefined\<rparr> 0)) = []"
  using sendQueue_always_empty [of "\<lambda>q. q", OF identity_keeps_queue] by blast

section \<open>The session: what has happened stays\<close>

text \<open>No method removes or reorders what the session has already done to the outside.\<close>

lemma effects_grow_basic:
  "\<exists>es. effects (state_of (node_send sf d p)) = effects p @ es"
  "\<exists>es. effects (nextTick cb p) = effects p @ es"
  "\<exists>es. effects (emit_player sig p) = effects p @ es"
  "\<exists>es. effects (sendEvent sf d p) = effects p @ es"
  by (simp_all add: node_send_def state_of_def nextTick_def emit_player_def sendEvent_fields
      split: sum.splits)

lemma effects_grow_queue:
  "\<exists>es. effects (queueEvent sf d p) = effects p @ es"
  "\<exists>es. effects (checkEventQueue sf p) = effects p @ es"
  by (simp_all add: queueEvent_def checkEventQueue_def sendEvent_fields split: list.splits)

lemma effects_grow_trans:
  "\<exists>es. effects q = effects p @ es \<Longrightarrow> \<exists>es. effects r = effects q @ es \<Longrightarrow>
   \<exists>es. effects r = effects p @ es"
  by auto

lemma effects_grow_stop: "\<exists>es. effects (stop sf p) = effects p @ es"
  using effects_grow_queue(1) [of sf "stop_payload p" p] by (simp add: stop_def Let_def)

lemma effects_grow_setPause: "\<exists>es. effects (state_of (setPause sf b p)) = effects p @ es"
  by (simp add: setPause_def Let_def node_send_def state_of_def split: sum.splits)

lemma effects_grow_resume: "\<exists>es. effects (state_of (resume sf p)) = effects p @ es"
  using effects_grow_setPause [of sf False p] by (simp add: resume_def state_of_def)

lemma effects_grow_pause: "\<exists>es. effects (state_of (pause sf p)) = effects p @ es"
  using effects_grow_setPause [of sf True p] by (simp add: pause_def state_of_def)

lemma effects_grow_connect: "\<exists>es. effects (connect_player sf d p) = effects p @ es"
  using effects_grow_queue(1) [of sf "voiceUpdate_payload d" "emit_player PConnect p"]
  by (auto simp: connect_player_def Let_def nextTick_def emit_player_def)

lemma effects_grow_disconnect:
  "\<exists>es. effects (state_of (disconnect sf msg p)) = effects p @ es"
proof -
  let ?p1 = "p\<lparr>playing := False\<rparr>"
  let ?r = "if paused ?p1 then resume sf ?p1 else Inr ?p1"
  have a: "\<exists>es. effects (state_of ?r) = effects p @ es"
    using effects_grow_resume [of sf ?p1] by (simp add: state_of_def)
  show ?thesis
  proof (cases ?r)
    case (Inl ep)
    with a show ?thesis
      by (simp add: disconnect_def disconnect_inner_def Let_def state_of_def)
  next
    case (Inr p2)
    let ?p3 = "queueEvent sf (JObj [(''op'', JStr ''destroy''), (''guildId'', guildId p2)]) p2"
    from Inr a have a': "\<exists>es. effects p2 = effects p @ es" by (simp add: state_of_def)
    have b: "\<exists>es. effects ?p3 = effects p2 @ es" by (rule effects_grow_queue)
    have c: "\<exists>es. effects (stop sf ?p3) = effects ?p3 @ es" by (rule effects_grow_stop)
    have d: "\<exists>es. effects (stop sf ?p3) = effects p @ es"
      by (rule effects_grow_trans [OF effects_grow_trans [OF a' b] c])
    with Inr show ?thesis
      by (auto simp: disconnect_def disconnect_inner_def Let_def state_of_def emit_player_def)
  qed
qed

lemma effects_grow_play:
  assumes sw: "\<And>q. \<exists>es. effects (sw q) = effects q @ es"
  shows "\<exists>es. effects (state_of (play sf sw now trk opts p)) = effects p @ es"
proof (cases "draining (node p)")
  case True
  then show ?thesis
    using sw [of "p\<lparr>lastTrack := track p, track := trk, playOptions := opts,
                    state := obj_set ''position'' (JNum 0) (state p)\<rparr>"]
    by (auto simp: play_def state_of_def Let_def split: option.splits)
next
  case False
  then show ?thesis
    using effects_grow_queue(1) [of sf "play_payload (p\<lparr>lastTrack := track p, track := trk, playOptions := opts\<rparr>) trk opts"
        "p\<lparr>lastTrack := track p, track := trk, playOptions := opts\<rparr>"]
    by (auto simp: play_def state_of_def Let_def)
qed

lemma effects_grow_onTrackEnd: "\<exists>es. effects (state_of (onTrackEnd m p)) = effects p @ es"
  by (simp add: onTrackEnd_def state_of_def Let_def emit_player_def split: sum.splits)

lemma effects_grow_onTrackStuck: "\<exists>es. effects (onTrackStuck sf m p) = effects p @ es"
  using effects_grow_stop [of sf p] by (simp add: onTrackStuck_def nextTick_def)

lemma effects_grow_tick: "\<exists>es. effects (tick sf p) = effects p @ es"
proof (cases "ticks p")
  case Nil
  then show ?thesis by (simp add: tick_def)
next
  case (Cons cb rest)
  show ?thesis
  proof (cases cb)
    case CheckEventQueue
    with Cons effects_grow_queue(2) [of sf "p\<lparr>ticks := rest\<rparr>"] show ?thesis
      by (simp add: tick_def run_callback_def)
  qed (use Cons in \<open>simp_all add: tick_def run_callback_def emit_player_def\<close>)
qed

lemma effects_grow_step:
  assumes sw: "\<And>q. \<exists>es. effects (sw q) = effects q @ es"
  shows "\<exists>es. effects (player_step sf parse sw oper p) = effects p @ es"
proof (cases oper)
  case (Play trk opts now)
  then show ?thesis using effects_grow_play [OF sw] by (simp add: player_step_def)
qed (simp_all add: player_step_def effects_grow_connect effects_grow_disconnect effects_grow_stop
      stateUpdate_def effects_grow_setPause setEqualizer_def destroy_player_def
      effects_grow_pause effects_grow_resume seek_def setVolume_def effects_grow_onTrackEnd
      onTrackException_def
      effects_grow_onTrackStuck switchChannel_def updateVoiceState_def effects_grow_queue
      effects_grow_basic effects_grow_tick Let_def)

lemma effects_grow_run:
  assumes sw: "\<And>q. \<exists>es. effects (sw q) = effects q @ es"
  shows "\<exists>es. effects (player_run sf parse sw opers p) = effects p @ es"
proof (induction opers arbitrary: p)
  case Nil
  show ?case by simp
next
  case (Cons oper opers)
  show ?case
    using effects_grow_trans [OF effects_grow_step [OF sw, of sf parse oper p] Cons]
    by simp
qed

section \<open>The session: order of delivery\<close>

lemma connect_player_empty:
  "sendQueue p = [] \<Longrightarrow>
   connect_player sf d p =
     (case send sf (voiceUpdate_payload d) (node p) of
        Inl e \<Rightarrow>
          p\<lparr>ticks := ticks p @ [EmitReady],
            effects := effects p @ [Emit PConnect, NodeSend (voiceUpdate_payload d)]\<rparr>
      | Inr n \<Rightarrow>
          p\<lparr>node := n,
            ticks := ticks p @ [CheckEventQueue, EmitReady],
            effects := effects p @ [Emit PConnect, NodeSend (voiceUpdate_payload d)]\<rparr>)"
  by (simp add: connect_player_def queueEvent_def sendEvent_def nextTick_def node_send_def
      emit_player_def Let_def split: sum.splits)

lemma connect_player_fields:
  "sendQueue p = [] \<Longrightarrow>
   sendQueue (connect_player sf d p) = [] \<and>
   draining (node (connect_player sf d p)) = draining (node p) \<and>
   guildId (connect_player sf d p) = guildId p \<and>
   effects (connect_player sf d p) =
     effects p @ [Emit PConnect, NodeSend (voiceUpdate_payload d)]"
  by (auto simp: connect_player_empty send_draining split: sum.splits)

lemma stop_empty:
  "sendQueue p = [] \<Longrightarrow>
   stop sf p =
     (case send sf (stop_payload p) (node p) of
        Inl e \<Rightarrow>
          p\<lparr>effects := effects p @ [NodeSend (stop_payload p)],
            playing := False, lastTrack := track p, track := JNull\<rparr>
      | Inr n \<Rightarrow>
          p\<lparr>node := n,
            ticks := ticks p @ [CheckEventQueue],
            effects := effects p @ [NodeSend (stop_payload p)],
            playing := False, lastTrack := track p, track := JNull\<rparr>)"
  by (simp add: stop_def queueEvent_def sendEvent_def nextTick_def node_send_def Let_def
      split: sum.splits)

lemma send_returns:
  "ws n = None \<Longrightarrow> \<not> isl (send sf d n)"
  "ws n = Some sid \<Longrightarrow> readyState (sockets n ! sid) = Open \<Longrightarrow> \<not> isl (send sf d n)"
  by (simp_all add: send_def ws_send_def split: option.splits)

lemma map_of_obj_set: "map_of (obj_set k v kvs) k = Some v"
  by (induction kvs) auto

lemma example_player_fields:
  "sendQueue (example_player n) = []"
  "ticks (example_player n) = []"
  "effects (example_player n) = []"
  "node (example_player n) = n"
  "guildId (example_player n) = JStr ''1''"
  "manager (example_player n) = Some PlayerManagerRef"
  "state (example_player n) = []"
  "track (example_player n) = JNull"
  by (simp_all add: example_player_def new_player_def)

text \<open>
  C2, as the code has it. From a state whose pending queue is empty (every state a
  session reaches, by the invariant above), any interleaving of \<open>queueEvent\<close> calls
  and scheduling turns hands the payloads to \<open>node.send\<close> in exactly the order they
  were enqueued, each within its own \<open>queueEvent\<close> call, and leaves the queue empty.
  So the \<open>voiceUpdate\<close> of \<open>connect\<close> reaches \<open>node.send\<close> before the payload of a
  later \<open>play\<close> on a node that is not draining, and before anything any later
  sequence of operations sends (the manager's \<open>switchNode\<close> being assumed to leave
  what has happened in place). The mechanism: \<open>queueEvent\<close> appends to the tail only
  when the queue is already non-empty, whatever is in flight; a send from which
  \<open>node.send\<close> returns schedules a check of the queue for a later turn, a send in
  which \<open>node.send\<close> throws schedules nothing; the check dequeues the head, if any,
  and sends it.
\<close>

theorem queue_delivery_order:
  assumes "sendQueue p = []"
  shows "node_sends (effects (queue_run sf acts p)) = node_sends (effects p) @ enqueued acts \<and>
         sendQueue (queue_run sf acts p) = [] \<and>
         (\<not> draining (node p) \<longrightarrow>
            node_sends (effects (state_of (play sf sw now trk opts
                (queue_run sf acts (connect_player sf d p))))) =
            node_sends (effects p) @ [voiceUpdate_payload d] @ enqueued acts @
              [play_payload p trk opts]) \<and>
         ((\<forall>q. \<exists>es. effects (sw q) = effects q @ es) \<longrightarrow>
            (\<exists>es. node_sends (effects (player_run sf parse sw opers (connect_player sf d p))) =
                    node_sends (effects p) @ voiceUpdate_payload d # es)) \<and>
         queueEvent sf x (q\<lparr>sendQueue := y # ys\<rparr>) = q\<lparr>sendQueue := y # ys @ [x]\<rparr> \<and>
         ticks (sendEvent sf x q) =
           ticks q @ (if isl (send sf x (node q)) then [] else [CheckEventQueue]) \<and>
         run_callback sf CheckEventQueue (q\<lparr>sendQueue := y # ys\<rparr>) =
           sendEvent sf y (q\<lparr>sendQueue := ys\<rparr>)"
proof -
  let ?c = "connect_player sf d p"
  let ?q = "queue_run sf acts ?c"
  have c: "sendQueue ?c = []" "draining (node ?c) = draining (node p)" "guildId ?c = guildId p"
    "node_sends (effects ?c) = node_sends (effects p) @ [voiceUpdate_payload d]"
    using connect_player_fields [OF assms, of sf d] by (simp_all add: node_sends_append)
  from queue_run_empty [OF c(1), of sf acts] c
  have q: "sendQueue ?q = []" "draining (node ?q) = draining (node p)" "guildId ?q = guildId p"
    "node_sends (effects ?q) = node_sends (effects p) @ [voiceUpdate_payload d] @ enqueued acts"
    by simp_all
  have play_last: "\<not> draining (node p) \<Longrightarrow>
    node_sends (effects (state_of (play sf sw now trk opts ?q))) =
      node_sends (effects p) @ [voiceUpdate_payload d] @ enqueued acts @ [play_payload p trk opts]"
    using q by (simp add: play_def state_of_def Let_def queueEvent_def sendEvent_fields
        node_sends_append play_payload_def)
  have later: "\<exists>es. node_sends (effects (player_run sf parse sw opers ?c)) =
      node_sends (effects p) @ voiceUpdate_payload d # es"
    if sw: "\<forall>q. \<exists>es. effects (sw q) = effects q @ es"
  proof -
    from sw have "\<And>q. \<exists>es. effects (sw q) = effects q @ es" by blast
    from effects_grow_run [of sw, OF this]
    obtain es where "effects (player_run sf parse sw opers ?c) = effects ?c @ es" by blast
    then have "node_sends (effects (player_run sf parse sw opers ?c)) =
        node_sends (effects p) @ voiceUpdate_payload d # node_sends es"
      by (simp add: node_sends_append c(4))
    then show ?thesis by blast
  qed
  have mech: "queueEvent sf x (q\<lparr>sendQueue := y # ys\<rparr>) = q\<lparr>sendQueue := y # ys @ [x]\<rparr>"
    "ticks (sendEvent sf x q) =
       ticks q @ (if isl (send sf x (node q)) then [] else [CheckEventQueue])"
    "run_callback sf CheckEventQueue (q\<lparr>sendQueue := y # ys\<rparr>) =
       sendEvent sf y (q\<lparr>sendQueue := ys\<rparr>)"
    by (simp_all add: queueEvent_def sendEvent_fields run_callback_def checkEventQueue_def)
  from queue_run_empty [OF assms, of sf acts] play_last later mech show ?thesis by blast
qed

theorem queue_delivery_order_witness:
  "sendQueue (example_player node_up) = [] \<and>
   \<not> draining (node (example_player node_up)) \<and>
   node_sends (effects (queue_run stringify_example
       [Enqueue stop_command, NextTick, Enqueue destroy_command] (example_player node_up))) =
     [stop_command, destroy_command] \<and>
   sendQueue (queue_run stringify_example
       [Enqueue stop_command, NextTick, Enqueue destroy_command] (example_player node_up)) = [] \<and>
   node_sends (effects (state_of (play stringify_example (\<lambda>q. q) 7 (JStr ''track'') None
       (queue_run stringify_example [Enqueue stop_command, NextTick]
          (connect_player stringify_example example_connect_data (example_player node_up)))))) =
     [voiceUpdate_payload example_connect_data, stop_command,
      JObj [(''op'', JStr ''play''), (''guildId'', JStr ''1''), (''track'', JStr ''track'')]] \<and>
   (\<exists>es. node_sends (effects (player_run stringify_example parse_example (\<lambda>q. q)
       [SetPause True, Tick, Play (JStr ''track'') None 7]
       (connect_player stringify_example example_connect_data (example_player node_up)))) =
     voiceUpdate_payload example_connect_data # es)"
proof -
  have h: "sendQueue (example_player node_up) = []"
    by (rule example_player_fields)
  have nd: "\<not> draining (node (example_player node_up))"
    by (simp add: example_player_fields node_up_fields)
  have sw: "\<forall>q::player. \<exists>es. effects ((\<lambda>q. q) q) = effects q @ es"
    by simp
  have a: "node_sends (effects (queue_run stringify_example
       [Enqueue stop_command, NextTick, Enqueue destroy_command] (example_player node_up))) =
     node_sends (effects (example_player node_up)) @
       enqueued [Enqueue stop_command, NextTick, Enqueue destroy_command]"
    using queue_delivery_order [OF h] by blast
  have b: "sendQueue (queue_run stringify_example
       [Enqueue stop_command, NextTick, Enqueue destroy_command] (example_player node_up)) = []"
    using queue_delivery_order [OF h] by blast
  have c: "node_sends (effects (state_of (play stringify_example (\<lambda>q. q) 7 (JStr ''track'') None
       (queue_run stringify_example [Enqueue stop_command, NextTick]
          (connect_player stringify_example example_connect_data (example_player node_up)))))) =
     node_sends (effects (example_player node_up)) @ [voiceUpdate_payload example_connect_data] @
       enqueued [Enqueue stop_command, NextTick] @
       [play_payload (example_player node_up) (JStr ''track'') None]"
    using queue_delivery_order [OF h] nd by blast
  have d: "\<exists>es. node_sends (effects (player_run stringify_example parse_example (\<lambda>q. q)
       [SetPause True, Tick, Play (JStr ''track'') None 7]
       (connect_player stringify_example example_connect_data (example_player node_up)))) =
     node_sends (effects (example_player node_up)) @ voiceUpdate_payload example_connect_data # es"
    using queue_delivery_order [OF h, of _ _ "\<lambda>q. q"] sw by blast
  from h nd a b c d show ?thesis
    by (simp add: example_player_fields play_payload_def obj_assign_def)
qed

text \<open>
  The claim on the code: after a first \<open>queueEvent\<close> the command is in flight (its
  deferred check is the one outstanding callback), yet a second \<open>queueEvent\<close> in the
  same turn does not append its payload to the queue: it hands it to \<open>node.send\<close> at
  once.
\<close>

theorem queue_delivery_order_counterexample:
  "ticks (queueEvent stringify_example stop_command (example_player node_up)) =
     [CheckEventQueue] \<and>
   sendQueue (queueEvent stringify_example destroy_command
      (queueEvent stringify_example stop_command (example_player node_up))) = [] \<and>
   effects (queueEvent stringify_example destroy_command
      (queueEvent stringify_example stop_command (example_player node_up))) =
     [NodeSend stop_command, NodeSend destroy_command]"
  by (simp add: example_player_fields queueEvent_def sendEvent_fields
      send_returns(2) [of node_up 0] node_up_fields)

section \<open>The session: connect\<close>

text \<open>
  C3, as the code has it. \<open>connect\<close> emits \<open>connect\<close>, hands the \<open>voiceUpdate\<close> to
  \<open>queueEvent\<close>, which (the pending queue being empty) passes it to \<open>node.send\<close> at
  once, and schedules the \<open>ready\<close> signal for a later scheduling turn, behind the
  check of the queue where \<open>node.send\<close> returned. The signal fires when that
  callback runs, after the \<open>voiceUpdate\<close> was handed to \<open>node.send\<close>, and waits for
  nothing else.
\<close>

theorem connect_sends_then_ready:
  assumes "sendQueue p = []"
  shows "connect_player sf d p =
           (case send sf (voiceUpdate_payload d) (node p) of
              Inl e \<Rightarrow>
                p\<lparr>ticks := ticks p @ [EmitReady],
                  effects := effects p @ [Emit PConnect, NodeSend (voiceUpdate_payload d)]\<rparr>
            | Inr n \<Rightarrow>
                p\<lparr>node := n,
                  ticks := ticks p @ [CheckEventQueue, EmitReady],
                  effects := effects p @ [Emit PConnect, NodeSend (voiceUpdate_payload d)]\<rparr>) \<and>
         effects (run_callback sf EmitReady q) = effects q @ [Emit PReady] \<and>
         (ticks p = [] \<longrightarrow>
            effects (tick sf (tick sf (connect_player sf d p))) =
              effects p @ [Emit PConnect, NodeSend (voiceUpdate_payload d), Emit PReady])"
  using assms
  by (auto simp: connect_player_empty run_callback_def emit_player_def tick_def
      checkEventQueue_def split: sum.splits)

theorem connect_sends_then_ready_witness:
  "sendQueue (example_player node_up) = [] \<and>
   ticks (example_player node_up) = [] \<and>
   ticks (connect_player stringify_example example_connect_data (example_player node_up)) =
     [CheckEventQueue, EmitReady] \<and>
   effects (connect_player stringify_example example_connect_data (example_player node_up)) =
     [Emit PConnect, NodeSend (voiceUpdate_payload example_connect_data)] \<and>
   effects (tick stringify_example (tick stringify_example
      (connect_player stringify_example example_connect_data (example_player node_up)))) =
     [Emit PConnect, NodeSend (voiceUpdate_payload example_connect_data), Emit PReady] \<and>
   sendQueue (example_player node_connecting) = [] \<and>
   ticks (example_player node_connecting) = [] \<and>
   send stringify_example (voiceUpdate_payload example_connect_data) node_connecting =
     Inl NotOpened \<and>
   ticks (connect_player stringify_example example_connect_data
      (example_player node_connecting)) = [EmitReady] \<and>
   effects (tick stringify_example (tick stringify_example
      (connect_player stringify_example example_connect_data
         (example_player node_connecting)))) =
     [Emit PConnect, NodeSend (voiceUpdate_payload example_connect_data), Emit PReady]"
proof -
  let ?v = "voiceUpdate_payload example_connect_data"
  let ?u = "example_player node_up"
  let ?c = "example_player node_connecting"
  have h: "sendQueue ?u = []" "sendQueue ?c = []"
    by (rule example_player_fields)+
  have t: "ticks ?u = []" "ticks ?c = []"
    by (rule example_player_fields)+
  have su: "\<not> isl (send stringify_example ?v (node ?u))"
    by (simp add: example_player_fields send_returns(2) [of node_up 0] node_up_fields)
  have sc: "send stringify_example ?v node_connecting = Inl NotOpened"
    by (rule send_not_open_throws [of _ 0])
      (simp_all add: node_connecting_fields stringify_example_def voiceUpdate_payload_def)
  have a: "connect_player stringify_example example_connect_data ?u =
      (case send stringify_example ?v (node ?u) of
         Inl e \<Rightarrow> ?u\<lparr>ticks := ticks ?u @ [EmitReady],
                    effects := effects ?u @ [Emit PConnect, NodeSend ?v]\<rparr>
       | Inr n \<Rightarrow> ?u\<lparr>node := n, ticks := ticks ?u @ [CheckEventQueue, EmitReady],
                    effects := effects ?u @ [Emit PConnect, NodeSend ?v]\<rparr>)"
    using connect_sends_then_ready [OF h(1)] by blast
  have a': "connect_player stringify_example example_connect_data ?c =
      (case send stringify_example ?v (node ?c) of
         Inl e \<Rightarrow> ?c\<lparr>ticks := ticks ?c @ [EmitReady],
                    effects := effects ?c @ [Emit PConnect, NodeSend ?v]\<rparr>
       | Inr n \<Rightarrow> ?c\<lparr>node := n, ticks := ticks ?c @ [CheckEventQueue, EmitReady],
                    effects := effects ?c @ [Emit PConnect, NodeSend ?v]\<rparr>)"
    using connect_sends_then_ready [OF h(2)] by blast
  have b: "effects (tick stringify_example (tick stringify_example
      (connect_player stringify_example example_connect_data ?u))) =
     effects ?u @ [Emit PConnect, NodeSend ?v, Emit PReady]"
    using connect_sends_then_ready [OF h(1)] t(1) by blast
  have b': "effects (tick stringify_example (tick stringify_example
      (connect_player stringify_example example_connect_data ?c))) =
     effects ?c @ [Emit PConnect, NodeSend ?v, Emit PReady]"
    using connect_sends_then_ready [OF h(2)] t(2) by blast
  have cu: "ticks (connect_player stringify_example example_connect_data ?u) =
      [CheckEventQueue, EmitReady] \<and>
    effects (connect_player stringify_example example_connect_data ?u) =
      [Emit PConnect, NodeSend ?v]"
    using su by (cases "send stringify_example ?v (node ?u)")
      (simp_all add: a example_player_fields)
  have cc: "ticks (connect_player stringify_example example_connect_data ?c) = [EmitReady]"
    by (simp add: a' sc example_player_fields)
  from h t b b' cu cc sc show ?thesis
    by (simp add: example_player_fields)
qed

text \<open>
  The claim on the code: a session whose node holds no socket. \<open>connect\<close> and two
  scheduling turns later the \<open>ready\<close> signal has fired, although nothing was handed
  to any socket: the handshake never left the process.
\<close>

theorem connect_sends_then_ready_counterexample:
  "effects (player_run stringify_example parse_example (\<lambda>q. q)
      [Connect example_connect_data, Tick, Tick] (example_player node_down)) =
     [Emit PConnect, NodeSend (voiceUpdate_payload example_connect_data), Emit PReady] \<and>
   transmitted (node (player_run stringify_example parse_example (\<lambda>q. q)
      [Connect example_connect_data, Tick, Tick] (example_player node_down))) = [] \<and>
   \<not> connected (node (player_run stringify_example parse_example (\<lambda>q. q)
      [Connect example_connect_data, Tick, Tick] (example_player node_down)))"
  by (simp add: player_step_def connect_player_empty example_player_fields tick_def
      run_callback_def checkEventQueue_def emit_player_def send_def node_down_fields)

section \<open>The session: play on a draining node\<close>

text \<open>
  C7. On a session whose node is draining, \<open>play\<close> records the track and the
  options, writes 0 to the cached position and hands the session to the manager's
  \<open>switchNode\<close>; what \<open>play\<close> returns is what \<open>switchNode\<close> returns. Up to that
  hand-over nothing has been passed to \<open>node.send\<close>, nothing has been put in the
  queue and no callback has been scheduled. (Without a manager the call of
  \<open>switchNode\<close> throws, and still nothing is sent or enqueued.)
\<close>

theorem play_while_draining:
  assumes "draining (node p)"
  shows "(manager p \<noteq> None \<longrightarrow>
            play sf sw now trk opts p =
              Inr (sw (p\<lparr>lastTrack := track p, track := trk, playOptions := opts,
                         state := obj_set ''position'' (JNum 0) (state p)\<rparr>))) \<and>
         (manager p = None \<longrightarrow>
            play sf sw now trk opts p =
              Inl (TypeError, p\<lparr>lastTrack := track p, track := trk, playOptions := opts,
                         state := obj_set ''position'' (JNum 0) (state p)\<rparr>)) \<and>
         map_of (obj_set ''position'' (JNum 0) (state p)) ''position'' = Some (JNum 0) \<and>
         effects (p\<lparr>lastTrack := track p, track := trk, playOptions := opts,
                         state := obj_set ''position'' (JNum 0) (state p)\<rparr>) = effects p \<and>
         sendQueue (p\<lparr>lastTrack := track p, track := trk, playOptions := opts,
                         state := obj_set ''position'' (JNum 0) (state p)\<rparr>) = sendQueue p \<and>
         ticks (p\<lparr>lastTrack := track p, track := trk, playOptions := opts,
                         state := obj_set ''position'' (JNum 0) (state p)\<rparr>) = ticks p \<and>
         node (p\<lparr>lastTrack := track p, track := trk, playOptions := opts,
                         state := obj_set ''position'' (JNum 0) (state p)\<rparr>) = node p"
  using assms by (auto simp: play_def Let_def map_of_obj_set)

theorem play_while_draining_witness:
  "draining (node (example_player (node_up\<lparr>draining := True\<rparr>))) \<and>
   manager (example_player (node_up\<lparr>draining := True\<rparr>)) = Some PlayerManagerRef \<and>
   play stringify_example (\<lambda>q. q) 7 (JStr ''track'') None
       (example_player (node_up\<lparr>draining := True\<rparr>)) =
     Inr ((example_player (node_up\<lparr>draining := True\<rparr>))
            \<lparr>lastTrack := JNull, track := JStr ''track'', playOptions := None,
             state := [(''position'', JNum 0)]\<rparr>) \<and>
   draining (node ((example_player (node_up\<lparr>draining := True\<rparr>))\<lparr>manager := None\<rparr>)) \<and>
   manager ((example_player (node_up\<lparr>draining := True\<rparr>))\<lparr>manager := None\<rparr>) = None \<and>
   play stringify_example (\<lambda>q. q) 7 (JStr ''track'') None
       ((example_player (node_up\<lparr>draining := True\<rparr>))\<lparr>manager := None\<rparr>) =
     Inl (TypeError, (example_player (node_up\<lparr>draining := True\<rparr>))
            \<lparr>manager := None, lastTrack := JNull, track := JStr ''track'', playOptions := None,
             state := [(''position'', JNum 0)]\<rparr>)"
proof -
  let ?p = "example_player (node_up\<lparr>draining := True\<rparr>)"
  have h: "draining (node ?p)"
    by (simp add: example_player_fields)
  have m: "manager ?p = Some PlayerManagerRef"
    by (rule example_player_fields)
  have h': "draining (node (?p\<lparr>manager := None\<rparr>))"
    by (simp add: example_player_fields)
  have m': "manager (?p\<lparr>manager := None\<rparr>) = None"
    by simp
  have a: "play stringify_example (\<lambda>q. q) 7 (JStr ''track'') None ?p =
      Inr ((\<lambda>q. q) (?p\<lparr>lastTrack := track ?p, track := JStr ''track'', playOptions := None,
                       state := obj_set ''position'' (JNum 0) (state ?p)\<rparr>))"
    using play_while_draining [OF h, of stringify_example "\<lambda>q. q" 7 "JStr ''track''" None] m
    by simp
  have b: "play stringify_example (\<lambda>q. q) 7 (JStr ''track'') None (?p\<lparr>manager := None\<rparr>) =
      Inl (TypeError, ?p\<lparr>manager := None, lastTrack := track (?p\<lparr>manager := None\<rparr>),
                         track := JStr ''track'', playOptions := None,
                         state := obj_set ''position'' (JNum 0) (state (?p\<lparr>manager := None\<rparr>))\<rparr>)"
    using play_while_draining [OF h', of stringify_example "\<lambda>q. q" 7 "JStr ''track''" None] m'
    by simp
  from h m h' m' show ?thesis
    by (simp add: a b example_player_fields)
qed

section \<open>The session: end of a track\<close>

text \<open>
  C8. For a message whose \<open>reason\<close> can be read: when the reason is \<open>REPLACED\<close>,
  \<open>onTrackEnd\<close> only emits \<open>end\<close> (the playing flag, the current and the previous
  track stay as they were); for any other reason, a missing one included, it clears
  the playing flag, remembers the current track as the previous one, sets the
  current track to \<open>null\<close>, and then emits \<open>end\<close>.
\<close>

theorem onTrackEnd_replaced:
  assumes "get_prop message ''reason'' = Inr reason"
  shows "(reason = JStr ''REPLACED'' \<longrightarrow>
            onTrackEnd message p = Inr (emit_player (PEnd message) p)) \<and>
         (reason \<noteq> JStr ''REPLACED'' \<longrightarrow>
            onTrackEnd message p =
              Inr (emit_player (PEnd message)
                    (p\<lparr>playing := False, lastTrack := track p, track := JNull\<rparr>))) \<and>
         playing (emit_player sig q) = playing q \<and>
         track (emit_player sig q) = track q \<and>
         lastTrack (emit_player sig q) = lastTrack q \<and>
         effects (emit_player sig q) = effects q @ [Emit sig]"
  using assms by (simp add: onTrackEnd_def emit_player_def Let_def)

theorem onTrackEnd_replaced_witness:
  "get_prop (JObj [(''type'', JStr ''TrackEndEvent''), (''reason'', JStr ''REPLACED'')]) ''reason''
     = Inr (JStr ''REPLACED'') \<and>
   onTrackEnd (JObj [(''type'', JStr ''TrackEndEvent''), (''reason'', JStr ''REPLACED'')])
       ((example_player node_up)\<lparr>playing := True, track := JStr ''track''\<rparr>) =
     Inr ((example_player node_up)
            \<lparr>playing := True, track := JStr ''track'',
             effects := [Emit (PEnd (JObj [(''type'', JStr ''TrackEndEvent''),
                                           (''reason'', JStr ''REPLACED'')]))]\<rparr>) \<and>
   get_prop (JObj [(''type'', JStr ''TrackEndEvent''), (''reason'', JStr ''FINISHED'')]) ''reason''
     = Inr (JStr ''FINISHED'') \<and>
   onTrackEnd (JObj [(''type'', JStr ''TrackEndEvent''), (''reason'', JStr ''FINISHED'')])
       ((example_player node_up)\<lparr>playing := True, track := JStr ''track''\<rparr>) =
     Inr ((example_player node_up)
            \<lparr>playing := False, track := JNull, lastTrack := JStr ''track'',
             effects := [Emit (PEnd (JObj [(''type'', JStr ''TrackEndEvent''),
                                           (''reason'', JStr ''FINISHED'')]))]\<rparr>)"
proof -
  let ?p = "(example_player node_up)\<lparr>playing := True, track := JStr ''track''\<rparr>"
  let ?r = "JObj [(''type'', JStr ''TrackEndEvent''), (''reason'', JStr ''REPLACED'')]"
  let ?f = "JObj [(''type'', JStr ''TrackEndEvent''), (''reason'', JStr ''FINISHED'')]"
  have h1: "get_prop ?r ''reason'' = Inr (JStr ''REPLACED'')" by simp
  have h2: "get_prop ?f ''reason'' = Inr (JStr ''FINISHED'')" by simp
  have a: "onTrackEnd ?r ?p = Inr (emit_player (PEnd ?r) ?p)"
    using onTrackEnd_replaced [OF h1] by blast
  have b: "onTrackEnd ?f ?p =
      Inr (emit_player (PEnd ?f) (?p\<lparr>playing := False, lastTrack := track ?p, track := JNull\<rparr>))"
    using onTrackEnd_replaced [OF h2] by simp
  from h1 h2 show ?thesis
    by (simp add: a b emit_player_def example_player_fields)
qed

section \<open>The session: a stuck track\<close>

lemma send_open_outbox:
  assumes "ws n = Some sid" "sid < length (sockets n)" "readyState (sockets n ! sid) = Open"
    "sf d = Some payload"
  shows "\<exists>n'. send sf d n = Inr n' \<and>
              outbox (sockets n' ! sid) = outbox (sockets n ! sid) @ [payload]"
  using assms by (simp add: send_def ws_send_def)

text \<open>
  C9. In a state whose pending queue is empty (every state a session reaches),
  \<open>onTrackStuck\<close> hands the \<open>stop\<close> command to \<open>node.send\<close> before it returns and
  emits nothing itself; it leaves the emission of \<open>end\<close> as a callback for a later
  scheduling turn, behind the deferred check of the queue where \<open>node.send\<close>
  returned. When that callback runs it appends the \<open>end\<close> signal to what has
  happened so far, so \<open>end\<close> comes after the \<open>stop\<close>. On a node that holds an open
  socket the serialised \<open>stop\<close> is the last thing that socket was handed when
  \<open>onTrackStuck\<close> returns, before any \<open>end\<close>.
\<close>

theorem onTrackStuck_end_after_stop:
  assumes "sendQueue p = []"
  shows "effects (onTrackStuck sf m p) = effects p @ [NodeSend (stop_payload p)] \<and>
         ticks (onTrackStuck sf m p) =
           ticks p @ (if isl (send sf (stop_payload p) (node p)) then [] else [CheckEventQueue])
             @ [EmitEnd m] \<and>
         effects (run_callback sf (EmitEnd m) q) = effects q @ [Emit (PEnd m)] \<and>
         (ticks p = [] \<longrightarrow>
            effects (tick sf (tick sf (onTrackStuck sf m p))) =
              effects p @ [NodeSend (stop_payload p), Emit (PEnd m)]) \<and>
         (\<forall>sid payload.
            ws (node p) = Some sid \<and> sid < length (sockets (node p)) \<and>
            readyState (sockets (node p) ! sid) = Open \<and> sf (stop_payload p) = Some payload \<longrightarrow>
            outbox (sockets (node (onTrackStuck sf m p)) ! sid) =
              outbox (sockets (node p) ! sid) @ [payload] \<and>
            ticks (onTrackStuck sf m p) = ticks p @ [CheckEventQueue, EmitEnd m])"
proof -
  have a: "effects (onTrackStuck sf m p) = effects p @ [NodeSend (stop_payload p)]"
    "ticks (onTrackStuck sf m p) =
       ticks p @ (if isl (send sf (stop_payload p) (node p)) then [] else [CheckEventQueue])
         @ [EmitEnd m]"
    using assms by (auto simp: onTrackStuck_def stop_empty nextTick_def split: sum.splits)
  have b: "effects (run_callback sf (EmitEnd m) q) = effects q @ [Emit (PEnd m)]"
    by (simp add: run_callback_def emit_player_def)
  have c: "effects (tick sf (tick sf (onTrackStuck sf m p))) =
      effects p @ [NodeSend (stop_payload p), Emit (PEnd m)]" if "ticks p = []"
    using assms that
    by (auto simp: onTrackStuck_def stop_empty nextTick_def run_callback_def emit_player_def
        tick_def checkEventQueue_def split: sum.splits)
  have d: "outbox (sockets (node (onTrackStuck sf m p)) ! sid) =
        outbox (sockets (node p) ! sid) @ [payload] \<and>
      ticks (onTrackStuck sf m p) = ticks p @ [CheckEventQueue, EmitEnd m]"
    if "ws (node p) = Some sid" "sid < length (sockets (node p))"
      "readyState (sockets (node p) ! sid) = Open" "sf (stop_payload p) = Some payload"
    for sid payload
  proof -
    from send_open_outbox [of "node p" sid sf "stop_payload p" payload, OF that] obtain n' where
      n': "send sf (stop_payload p) (node p) = Inr n'"
      "outbox (sockets n' ! sid) = outbox (sockets (node p) ! sid) @ [payload]"
      by blast
    with assms show ?thesis
      by (simp add: onTrackStuck_def stop_empty nextTick_def)
  qed
  from a b c d show ?thesis by blast
qed

theorem onTrackStuck_end_after_stop_witness:
  \<open>sendQueue (example_player node_up) = [] \<and>
   ticks (example_player node_up) = [] \<and>
   ws (node (example_player node_up)) = Some 0 \<and>
   readyState (sockets (node (example_player node_up)) ! 0) = Open \<and>
   stringify_example (stop_payload (example_player node_up)) =
     Some (JStr ''{"op":"stop","guildId":"1"}'') \<and>
   effects (onTrackStuck stringify_example (JObj [(''type'', JStr ''TrackStuckEvent'')])
      (example_player node_up)) = [NodeSend stop_command] \<and>
   ticks (onTrackStuck stringify_example (JObj [(''type'', JStr ''TrackStuckEvent'')])
      (example_player node_up)) =
     [CheckEventQueue, EmitEnd (JObj [(''type'', JStr ''TrackStuckEvent'')])] \<and>
   outbox (sockets (node (onTrackStuck stringify_example
      (JObj [(''type'', JStr ''TrackStuckEvent'')]) (example_player node_up))) ! 0) =
     [JStr ''{"op":"stop","guildId":"1"}''] \<and>
   effects (tick stringify_example (tick stringify_example
      (onTrackStuck stringify_example (JObj [(''type'', JStr ''TrackStuckEvent'')])
         (example_player node_up)))) =
     [NodeSend stop_command, Emit (PEnd (JObj [(''type'', JStr ''TrackStuckEvent'')]))]\<close>
proof -
  let ?p = "example_player node_up"
  let ?m = "JObj [(''type'', JStr ''TrackStuckEvent'')]"
  let ?s = \<open>JStr ''{"op":"stop","guildId":"1"}''\<close>
  have h: "sendQueue ?p = []" by (rule example_player_fields)
  have t: "ticks ?p = []" by (rule example_player_fields)
  have w: "ws (node ?p) = Some 0" "0 < length (sockets (node ?p))"
    "readyState (sockets (node ?p) ! 0) = Open"
    by (simp_all add: example_player_fields node_up_fields)
  have sp: "stop_payload ?p = stop_command"
    by (simp add: stop_payload_def stop_command_def example_player_fields)
  have s: "stringify_example (stop_payload ?p) = Some ?s"
    by (simp add: sp stop_command_def stringify_example_def)
  have a: "effects (onTrackStuck stringify_example ?m ?p) = effects ?p @ [NodeSend (stop_payload ?p)]"
    using onTrackStuck_end_after_stop [OF h] by blast
  have b: "outbox (sockets (node (onTrackStuck stringify_example ?m ?p)) ! 0) =
        outbox (sockets (node ?p) ! 0) @ [?s] \<and>
      ticks (onTrackStuck stringify_example ?m ?p) = ticks ?p @ [CheckEventQueue, EmitEnd ?m]"
    using onTrackStuck_end_after_stop [OF h, of stringify_example ?m] w s by blast
  have c: "effects (tick stringify_example (tick stringify_example
      (onTrackStuck stringify_example ?m ?p))) =
      effects ?p @ [NodeSend (stop_payload ?p), Emit (PEnd ?m)]"
    using onTrackStuck_end_after_stop [OF h] t by blast
  from h t w s show ?thesis
    by (simp add: a b c sp example_player_fields node_up_fields)
qed

text \<open>
  Where the node holds no socket, or one that is not open, the \<open>stop\<close> goes no
  further than \<open>node.send\<close> (dropped there, or thrown back into the \<open>async\<close>
  \<open>sendEvent\<close>), and \<open>end\<close> is emitted on the later turn all the same.
\<close>

lemma onTrackStuck_without_open_socket:
  "effects (tick stringify_example (onTrackStuck stringify_example m (example_player node_down)))
     = [NodeSend stop_command] \<and>
   effects (tick stringify_example (tick stringify_example
      (onTrackStuck stringify_example m (example_player node_down)))) =
     [NodeSend stop_command, Emit (PEnd m)] \<and>
   transmitted (node (tick stringify_example (tick stringify_example
      (onTrackStuck stringify_example m (example_player node_down))))) = [] \<and>
   ticks (onTrackStuck stringify_example m (example_player node_connecting)) = [EmitEnd m] \<and>
   effects (tick stringify_example
      (onTrackStuck stringify_example m (example_player node_connecting))) =
     [NodeSend stop_command, Emit (PEnd m)] \<and>
   transmitted (node (tick stringify_example
      (onTrackStuck stringify_example m (example_player node_connecting)))) = []"
proof -
  have sp: "stop_payload (example_player n) = stop_command" for n
    by (simp add: stop_payload_def stop_command_def example_player_fields)
  have d: "send stringify_example stop_command node_down = Inr node_down"
    by (simp add: send_def node_down_fields)
  have c: "send stringify_example stop_command node_connecting = Inl NotOpened"
    by (rule send_not_open_throws [of _ 0])
      (simp_all add: node_connecting_fields stringify_example_def stop_command_def)
  show ?thesis
    by (simp add: onTrackStuck_def stop_empty example_player_fields sp d c nextTick_def tick_def
        run_callback_def checkEventQueue_def emit_player_def node_down_fields
        node_connecting_fields)
qed

end
